theory Spec2Isabelle
  imports Main
begin

section \<open>The coffee-shop drinks API (backend/src/api.py)\<close>

text \<open>
  The module registers five route handlers and six error handlers on a Flask
  application. Each handler is embedded as a function of the decoded token payload
  the authorization decorator hands over, the URL argument, the value of
  \<^verbatim>\<open>request.get_json()\<close> and the drinks table; the two handlers that join a set of
  strings into a message also take the seed that fixes the order in which the set
  iterates. A handler returns either the JSON value it passes to \<^verbatim>\<open>jsonify\<close> or the
  exception it raises, together with the table it leaves behind. The application's
  dispatch then turns a raised exception into the response of the registered error
  handler.
\<close>

subsection \<open>JSON values and the Python operations the handlers apply to them\<close>

text \<open>
  What \<^verbatim>\<open>request.get_json()\<close> returns: \<^verbatim>\<open>None\<close>, a bool, a number, a string, a list, or
  a dict in insertion order. Numbers are Python's unbounded integers; JSON numbers
  with a fraction are not part of this model.
\<close>

datatype json =
    JNull
  | JBool bool
  | JInt int
  | JStr string
  | JArr "json list"
  | JObj "(string \<times> json) list"

text \<open>
  Exceptions. \<open>HTTPException e\<close> is what \<^verbatim>\<open>abort\<close> raises: \<open>code e\<close> is the status code and
  \<open>description e\<close> the exception's \<^verbatim>\<open>description\<close> attribute (a string or \<^verbatim>\<open>None\<close>). The
  others are the Python and SQLAlchemy exceptions the handlers can meet.
\<close>

record http_exception =
  code :: nat
  description :: "string option"

datatype exn =
    HTTPException http_exception
  | AttributeError
  | TypeError
  | KeyError
  | IntegrityError
  | StorageError
  | MultipleResultsFound
  | OverflowError

text \<open>Python truthiness: \<^verbatim>\<open>not v\<close> is \<open>\<not> truthy v\<close>.\<close>

fun truthy :: "json \<Rightarrow> bool" where
  "truthy JNull = False"
| "truthy (JBool b) = b"
| "truthy (JInt n) = (n \<noteq> 0)"
| "truthy (JStr s) = (s \<noteq> [])"
| "truthy (JArr xs) = (xs \<noteq> [])"
| "truthy (JObj kvs) = (kvs \<noteq> [])"

text \<open>\<^verbatim>\<open>body.get(field)\<close>: only a dict has the method; a missing key gives \<^verbatim>\<open>None\<close>.\<close>

fun py_get :: "json \<Rightarrow> string \<Rightarrow> exn + json" where
  "py_get (JObj kvs) k = Inr (case map_of kvs k of None \<Rightarrow> JNull | Some v \<Rightarrow> v)"
| "py_get _ k = Inl AttributeError"

text \<open>\<^verbatim>\<open>body[field]\<close> with a string key.\<close>

fun py_getitem :: "json \<Rightarrow> string \<Rightarrow> exn + json" where
  "py_getitem (JObj kvs) k = (case map_of kvs k of None \<Rightarrow> Inl KeyError | Some v \<Rightarrow> Inr v)"
| "py_getitem _ k = Inl TypeError"

text \<open>\<^verbatim>\<open>k in s\<close> for two strings is the substring test.\<close>

fun substring :: "string \<Rightarrow> string \<Rightarrow> bool" where
  "substring k [] = (k = [])"
| "substring k (c # cs) = (take (length k) (c # cs) = k \<or> substring k cs)"

text \<open>
  \<^verbatim>\<open>field in body\<close>: key membership for a dict, element membership for a list,
  substring for a string, \<^verbatim>\<open>TypeError\<close> for \<^verbatim>\<open>None\<close>, a bool or a number.
\<close>

fun py_in :: "string \<Rightarrow> json \<Rightarrow> exn + bool" where
  "py_in k (JObj kvs) = Inr (k \<in> set (map fst kvs))"
| "py_in k (JArr xs) = Inr (JStr k \<in> set xs)"
| "py_in k (JStr s) = Inr (substring k s)"
| "py_in k _ = Inl TypeError"

text \<open>
  Iterating a value: a dict yields its keys, a list its elements, a string its
  characters; anything else is not iterable.
\<close>

fun py_iter :: "json \<Rightarrow> exn + json list" where
  "py_iter (JObj kvs) = Inr (map (\<lambda>kv. JStr (fst kv)) kvs)"
| "py_iter (JArr xs) = Inr xs"
| "py_iter (JStr s) = Inr (map (\<lambda>c. JStr [c]) s)"
| "py_iter _ = Inl TypeError"

fun hashable :: "json \<Rightarrow> bool" where
  "hashable (JArr xs) = False"
| "hashable (JObj kvs) = False"
| "hashable _ = True"

text \<open>
  A set of strings iterates in the order of its hash table, which follows the hashes
  of the strings; these change from process to process, so the source fixes no order.
  The model keeps a set as a list and takes a number \<open>seed\<close> that stands for the
  process's hash seed and selects the order in which the set iterates: each element
  in turn is put at the position the seed names. Every order of the elements is
  selected by some seed (\<open>set_order_any\<close> below).
\<close>

fun insert_at :: "nat \<Rightarrow> 'a \<Rightarrow> 'a list \<Rightarrow> 'a list" where
  "insert_at 0 x ys = x # ys"
| "insert_at (Suc n) x [] = [x]"
| "insert_at (Suc n) x (y # ys) = y # insert_at n x ys"

fun set_order :: "nat \<Rightarrow> 'a list \<Rightarrow> 'a list" where
  "set_order seed [] = []"
| "set_order seed (x # xs) =
     insert_at (seed mod Suc (length xs)) x (set_order (seed div Suc (length xs)) xs)"

text \<open>
  \<^verbatim>\<open>required.difference(other)\<close> for a set of strings: every element of \<open>other\<close> is
  hashed and discarded from a copy of the set, so an unhashable element is a
  \<^verbatim>\<open>TypeError\<close>. The result is the set of the remaining required names, as the list
  in which it iterates under the seed.
\<close>

definition difference :: "nat \<Rightarrow> string list \<Rightarrow> json \<Rightarrow> exn + string list" where
  "difference seed required other =
     (case py_iter other of
        Inl e \<Rightarrow> Inl e
      | Inr ys \<Rightarrow>
          if list_ex (\<lambda>y. \<not> hashable y) ys then Inl TypeError
          else Inr (set_order seed (filter (\<lambda>f. JStr f \<notin> set ys) required)))"

text \<open>\<^verbatim>\<open>recipe.items()\<close>: only a dict has the method.\<close>

fun py_items :: "json \<Rightarrow> exn + (string \<times> json) list" where
  "py_items (JObj kvs) = Inr kvs"
| "py_items _ = Inl AttributeError"

text \<open>\<^verbatim>\<open>", ".join(names)\<close>.\<close>

fun join_comma :: "string list \<Rightarrow> string" where
  "join_comma [] = []"
| "join_comma [x] = x"
| "join_comma (x # y # ys) = x @ '', '' @ join_comma (y # ys)"

subsection \<open>\<^verbatim>\<open>abort\<close> and the descriptions werkzeug attaches\<close>

text \<open>
  \<^verbatim>\<open>abort(code)\<close> raises the exception class of the code with the class's own
  description; \<^verbatim>\<open>abort(code, message)\<close> replaces the description by the message.
\<close>

definition class_description :: "nat \<Rightarrow> string option" where
  "class_description c =
     (if c = 400 then
        Some ''The browser (or proxy) sent a request that this server could not understand.''
      else if c = 401 then
        Some (''The server could not verify that you are authorized to access the URL requested. '' @
              ''You either supplied the wrong credentials (e.g. a bad password), or your browser '' @
              ''doesn't understand how to supply the credentials required.'')
      else if c = 403 then
        Some (''You don't have the permission to access the requested resource. '' @
              ''It is either read-protected or not readable by the server.'')
      else if c = 404 then
        Some (''The requested URL was not found on the server. '' @
              ''If you entered the URL manually please check your spelling and try again.'')
      else if c = 422 then
        Some ''The request was well-formed but was unable to be followed due to semantic errors.''
      else if c = 500 then
        Some (''The server encountered an internal error and was unable to complete your request. '' @
              ''Either the server is overloaded or there is an error in the application.'')
      else None)"

definition abort :: "nat \<Rightarrow> string option \<Rightarrow> exn" where
  "abort c message =
     HTTPException
       \<lparr>code = c,
        description = (case message of None \<Rightarrow> class_description c | Some m \<Rightarrow> Some m)\<rparr>"

subsection \<open>The drinks table\<close>

text \<open>
  The text \<^verbatim>\<open>json.dumps(v)\<close> is represented by the value it encodes:
  \<^verbatim>\<open>json.loads(json.dumps(v))\<close> gives \<open>v\<close> back for every value \<^verbatim>\<open>get_json\<close> can return.
\<close>

datatype json_text = Dumps json

definition json_dumps :: "json \<Rightarrow> json_text" where
  "json_dumps v = Dumps v"

fun json_loads :: "json_text \<Rightarrow> json" where
  "json_loads (Dumps v) = v"

text \<open>
  A row of the table (class \<^verbatim>\<open>Drink\<close> of database/models.py): columns \<^verbatim>\<open>id\<close>,
  \<^verbatim>\<open>title\<close> and \<^verbatim>\<open>recipe\<close>. The database is the list of its rows and the next id the
  storage will hand out.
\<close>

record drink =
  id_col :: int
  title :: string
  recipe :: json_text

record db =
  rows :: "drink list"
  next_id :: int

text \<open>
  Modelled from the spec: \<^verbatim>\<open>Drink(title=.., recipe=..).insert()\<close> of
  database/models.py, which is not among the sources. "create(title, recipe) -> Drink:
  fails with ConflictError if title already exists; fails with generic StorageError
  on any other persistence failure"; "id: integer, system-generated, unique"; "title:
  string". A title that is not a string is a persistence failure.
\<close>

definition insert_drink :: "json \<Rightarrow> json_text \<Rightarrow> db \<Rightarrow> exn + (drink \<times> db)" where
  "insert_drink new_title new_recipe d =
     (case new_title of
        JStr t \<Rightarrow>
          if t \<in> set (map title (rows d)) then Inl IntegrityError
          else
            (let row = \<lparr>id_col = next_id d, title = t, recipe = new_recipe\<rparr>
             in Inr (row, \<lparr>rows = rows d @ [row], next_id = next_id d + 1\<rparr>))
      | _ \<Rightarrow> Inl StorageError)"

text \<open>
  Modelled from the spec: assigning to \<^verbatim>\<open>drink.title\<close> and \<^verbatim>\<open>drink.recipe\<close> and calling
  \<^verbatim>\<open>drink.update()\<close> of database/models.py. "update(id, fields) -> Drink: applies only
  the fields supplied; fails with StorageError on persistence failure"; "title:
  string, required, unique". \<open>None\<close> stands for a field that was not assigned.
\<close>

definition update_row ::
  "drink \<Rightarrow> json option \<Rightarrow> json_text option \<Rightarrow> db \<Rightarrow> exn + (drink \<times> db)" where
  "update_row row new_title new_recipe d =
     (case (case new_title of
              None \<Rightarrow> Inr (title row)
            | Some (JStr t) \<Rightarrow> Inr t
            | Some _ \<Rightarrow> Inl StorageError) of
        Inl e \<Rightarrow> Inl e
      | Inr t \<Rightarrow>
          if t \<noteq> title row \<and> t \<in> set (map title (filter (\<lambda>x. id_col x \<noteq> id_col row) (rows d)))
          then Inl IntegrityError
          else
            (let row' = row\<lparr>title := t,
                            recipe := (case new_recipe of None \<Rightarrow> recipe row | Some r \<Rightarrow> r)\<rparr>
             in Inr (row', d\<lparr>rows := map (\<lambda>x. if id_col x = id_col row then row' else x) (rows d)\<rparr>)))"

text \<open>
  Modelled from the spec: \<^verbatim>\<open>drink.delete()\<close> of database/models.py. "delete(id): fails
  with StorageError on persistence failure"; the row of that id leaves the table.
\<close>

definition delete_row :: "drink \<Rightarrow> db \<Rightarrow> exn + db" where
  "delete_row row d = Inr (d\<lparr>rows := filter (\<lambda>x. id_col x \<noteq> id_col row) (rows d)\<rparr>)"

text \<open>
  The table is an SQLite table (database/models.py, which is not among the sources,
  opens it), whose \<^verbatim>\<open>INTEGER\<close> is a signed 64-bit value. The route's
  \<^verbatim>\<open><int:drink_id>\<close> matches any run of digits, and binding a Python integer outside
  the 64-bit range to a statement raises \<^verbatim>\<open>OverflowError\<close>.
\<close>

definition sqlite_integer :: "int \<Rightarrow> bool" where
  "sqlite_integer n = (- (2 ^ 63) \<le> n \<and> n < 2 ^ 63)"

text \<open>
  \<^verbatim>\<open>Drink.query.filter(Drink.id == drink_id).one_or_none()\<close>: \<^verbatim>\<open>OverflowError\<close> for an
  id the statement cannot bind; otherwise \<^verbatim>\<open>None\<close> for no row, the row when there is
  one, \<^verbatim>\<open>MultipleResultsFound\<close> for more.
\<close>

definition one_or_none :: "int \<Rightarrow> db \<Rightarrow> exn + drink option" where
  "one_or_none drink_id d =
     (if \<not> sqlite_integer drink_id then Inl OverflowError
      else
        (case filter (\<lambda>x. id_col x = drink_id) (rows d) of
           [] \<Rightarrow> Inr None
         | [x] \<Rightarrow> Inr (Some x)
         | _ \<Rightarrow> Inl MultipleResultsFound))"

text \<open>
  Modelled from the spec: \<^verbatim>\<open>Drink.long()\<close> of database/models.py. "long: {id, title,
  recipe: [{name, color, parts}]}", the recipe "deserialized on read".
\<close>

definition long :: "drink \<Rightarrow> json" where
  "long row =
     JObj [(''id'', JInt (id_col row)), (''title'', JStr (title row)),
           (''recipe'', json_loads (recipe row))]"

text \<open>
  Modelled from the spec: \<^verbatim>\<open>Drink.short()\<close> of database/models.py. "short: {id, title,
  recipe: [{name, color, parts: "pending"}]}". A stored recipe that is not a list of
  objects with a name and a color cannot be projected and raises.
\<close>

fun short_ingredient :: "json \<Rightarrow> exn + json" where
  "short_ingredient (JObj kvs) =
     (case map_of kvs ''name'' of
        None \<Rightarrow> Inl KeyError
      | Some n \<Rightarrow>
          (case map_of kvs ''color'' of
             None \<Rightarrow> Inl KeyError
           | Some c \<Rightarrow> Inr (JObj [(''name'', n), (''color'', c), (''parts'', JStr ''pending'')])))"
| "short_ingredient _ = Inl TypeError"

text \<open>A list comprehension whose element expression may raise.\<close>

fun map_exn :: "('a \<Rightarrow> exn + 'b) \<Rightarrow> 'a list \<Rightarrow> exn + 'b list" where
  "map_exn f [] = Inr []"
| "map_exn f (x # xs) =
     (case f x of
        Inl e \<Rightarrow> Inl e
      | Inr y \<Rightarrow> (case map_exn f xs of Inl e \<Rightarrow> Inl e | Inr ys \<Rightarrow> Inr (y # ys)))"

definition short :: "drink \<Rightarrow> exn + json" where
  "short row =
     (case json_loads (recipe row) of
        JArr xs \<Rightarrow>
          (case map_exn short_ingredient xs of
             Inl e \<Rightarrow> Inl e
           | Inr ys \<Rightarrow>
               Inr (JObj [(''id'', JInt (id_col row)), (''title'', JStr (title row)),
                          (''recipe'', JArr ys)]))
      | _ \<Rightarrow> Inl TypeError)"

subsection \<open>Request validation\<close>

text \<open>
  One pass of the loop of \<^verbatim>\<open>create_drink\<close> (lines 79 to 82):
  \<^verbatim>\<open>new_data[field] = body.get(field)\<close>, then \<^verbatim>\<open>abort(400, ..)\<close> if the value is falsy.
\<close>

definition required_field :: "json \<Rightarrow> string \<Rightarrow> exn + json" where
  "required_field body field =
     (case py_get body field of
        Inl e \<Rightarrow> Inl e
      | Inr v \<Rightarrow>
          if \<not> truthy v then Inl (abort 400 (Some (''Missing required field: '' @ field)))
          else Inr v)"

text \<open>
  One pass of the loop of \<^verbatim>\<open>update_drink\<close> (lines 124 to 126):
  \<^verbatim>\<open>if field in body and not body.get(field): abort(400, ..)\<close>. The \<^verbatim>\<open>and\<close> calls
  \<^verbatim>\<open>body.get\<close> only when the field is in the body.
\<close>

definition supplied_field :: "json \<Rightarrow> string \<Rightarrow> exn + unit" where
  "supplied_field body field =
     (case py_in field body of
        Inl e \<Rightarrow> Inl e
      | Inr present \<Rightarrow>
          if present then
            (case py_get body field of
               Inl e \<Rightarrow> Inl e
             | Inr v \<Rightarrow>
                 if \<not> truthy v then
                   Inl (abort 400 (Some (''A value is required for field: '' @ field)))
                 else Inr ())
          else Inr ())"

text \<open>
  The check "for the long format", written twice in the source with the same text
  (lines 84 to 90 and 129 to 135): the three names must be among what iterating the
  recipe yields, and every value of \<^verbatim>\<open>recipe.items()\<close> must be truthy. The message
  for missing names joins the set \<^verbatim>\<open>missing_recipe_fields\<close> in the order it iterates.
\<close>

fun recipe_values :: "(string \<times> json) list \<Rightarrow> exn + unit" where
  "recipe_values [] = Inr ()"
| "recipe_values ((k, v) # kvs) =
     (if \<not> truthy v then Inl (abort 400 (Some (''Missing required recipe field: '' @ k)))
      else recipe_values kvs)"

definition long_format :: "nat \<Rightarrow> json \<Rightarrow> exn + unit" where
  "long_format seed r =
     (case difference seed [''name'', ''color'', ''parts''] r of
        Inl e \<Rightarrow> Inl e
      | Inr missing_recipe_fields \<Rightarrow>
          if missing_recipe_fields \<noteq> [] then
            Inl (abort 400
                  (Some (''Missing required recipe field(s): '' @ join_comma missing_recipe_fields)))
          else
            (case py_items r of
               Inl e \<Rightarrow> Inl e
             | Inr kvs \<Rightarrow> recipe_values kvs))"

subsection \<open>Route handlers\<close>

text \<open>The decoded token the authorization decorator passes; no handler reads it.\<close>

type_synonym payload = json

definition success_drinks :: "json list \<Rightarrow> json" where
  "success_drinks drinks = JObj [(''success'', JBool True), (''drinks'', JArr drinks)]"

text \<open>\<^verbatim>\<open>GET /drinks\<close> (lines 29 to 40).\<close>

definition get_drinks :: "db \<Rightarrow> exn + json" where
  "get_drinks d =
     (let recs = sort_key id_col (rows d) in
      case map_exn short recs of
        Inl e \<Rightarrow> Inl e
      | Inr drinks \<Rightarrow>
          if length drinks = 0 then Inl (abort 404 None)
          else Inr (success_drinks drinks))"

text \<open>\<^verbatim>\<open>GET /drinks-detail\<close> (lines 50 to 62).\<close>

definition get_drinks_detail :: "payload \<Rightarrow> db \<Rightarrow> exn + json" where
  "get_drinks_detail payload d =
     (let recs = sort_key id_col (rows d);
          drinks = map long recs
      in if length drinks = 0 then Inl (abort 404 None)
         else Inr (success_drinks drinks))"

text \<open>
  \<^verbatim>\<open>POST /drinks\<close> (lines 73 to 105). The validation runs before the \<^verbatim>\<open>try\<close>; inside it
  an \<^verbatim>\<open>IntegrityError\<close> becomes \<^verbatim>\<open>abort(400, ..)\<close> and any other exception
  \<^verbatim>\<open>abort(422)\<close>.
\<close>

definition create_drink :: "nat \<Rightarrow> payload \<Rightarrow> json \<Rightarrow> db \<Rightarrow> (exn + json) \<times> db" where
  "create_drink seed payload body d =
     (case required_field body ''title'' of
        Inl e \<Rightarrow> (Inl e, d)
      | Inr new_title \<Rightarrow>
     (case required_field body ''recipe'' of
        Inl e \<Rightarrow> (Inl e, d)
      | Inr new_recipe \<Rightarrow>
     (case long_format seed new_recipe of
        Inl e \<Rightarrow> (Inl e, d)
      | Inr _ \<Rightarrow>
     (case insert_drink new_title (json_dumps (JArr [new_recipe])) d of
        Inl e \<Rightarrow>
          if e = IntegrityError then (Inl (abort 400 (Some ''Drink may already exist'')), d)
          else (Inl (abort 422 None), d)
      | Inr (row, d') \<Rightarrow> (Inr (success_drinks [long row]), d')))))"

text \<open>
  \<^verbatim>\<open>PATCH /drinks/<id>\<close> (lines 118 to 155). \<open>update_checks\<close> is the validation before
  the \<^verbatim>\<open>try\<close> (lines 124 to 135), \<open>update_try\<close> the body of the \<^verbatim>\<open>try\<close> (lines 138 to
  153), where \<open>assigned\<close> reads a field for \<^verbatim>\<open>if field in body: .. body[field]\<close>.
  \<^verbatim>\<open>except Exception: abort(422)\<close> catches whatever the body raises; the
  \<^verbatim>\<open>HTTPException\<close> of \<^verbatim>\<open>abort(404)\<close> is an \<^verbatim>\<open>Exception\<close> too.
\<close>

definition update_checks :: "nat \<Rightarrow> json \<Rightarrow> exn + unit" where
  "update_checks seed body =
     (case supplied_field body ''title'' of
        Inl e \<Rightarrow> Inl e
      | Inr _ \<Rightarrow>
     (case supplied_field body ''recipe'' of
        Inl e \<Rightarrow> Inl e
      | Inr _ \<Rightarrow>
     (case py_in ''recipe'' body of
        Inl e \<Rightarrow> Inl e
      | Inr present \<Rightarrow>
          if present then
            (case py_getitem body ''recipe'' of
               Inl e \<Rightarrow> Inl e
             | Inr r \<Rightarrow> long_format seed r)
          else Inr ())))"

definition assigned :: "string \<Rightarrow> json \<Rightarrow> exn + json option" where
  "assigned field body =
     (case py_in field body of
        Inl e \<Rightarrow> Inl e
      | Inr present \<Rightarrow>
          if present then
            (case py_getitem body field of
               Inl e \<Rightarrow> Inl e
             | Inr v \<Rightarrow> Inr (Some v))
          else Inr None)"

definition update_try :: "int \<Rightarrow> json \<Rightarrow> db \<Rightarrow> (exn + json) \<times> db" where
  "update_try drink_id body d =
     (case one_or_none drink_id d of
        Inl e \<Rightarrow> (Inl e, d)
      | Inr None \<Rightarrow> (Inl (abort 404 None), d)
      | Inr (Some drink) \<Rightarrow>
     (case assigned ''title'' body of
        Inl e \<Rightarrow> (Inl e, d)
      | Inr new_title \<Rightarrow>
     (case assigned ''recipe'' body of
        Inl e \<Rightarrow> (Inl e, d)
      | Inr new_recipe \<Rightarrow>
     (case update_row drink new_title (map_option json_dumps new_recipe) d of
        Inl e \<Rightarrow> (Inl e, d)
      | Inr (row, d') \<Rightarrow> (Inr (success_drinks [long row]), d')))))"

definition update_drink ::
  "nat \<Rightarrow> payload \<Rightarrow> int \<Rightarrow> json \<Rightarrow> db \<Rightarrow> (exn + json) \<times> db" where
  "update_drink seed payload drink_id body d =
     (case update_checks seed body of
        Inl e \<Rightarrow> (Inl e, d)
      | Inr _ \<Rightarrow>
          (case update_try drink_id body d of
             (Inl e, d') \<Rightarrow> (Inl (abort 422 None), d')
           | (Inr r, d') \<Rightarrow> (Inr r, d')))"

text \<open>
  \<^verbatim>\<open>DELETE /drinks/<id>\<close> (lines 166 to 181). The lookup and \<^verbatim>\<open>abort(404)\<close> stand
  before the \<^verbatim>\<open>try\<close>, so an exception of the lookup is not caught.
\<close>

definition delete_drink :: "payload \<Rightarrow> int \<Rightarrow> db \<Rightarrow> (exn + json) \<times> db" where
  "delete_drink payload drink_id d =
     (case one_or_none drink_id d of
        Inl e \<Rightarrow> (Inl e, d)
      | Inr None \<Rightarrow> (Inl (abort 404 None), d)
      | Inr (Some drink) \<Rightarrow>
          (case delete_row drink d of
             Inl e \<Rightarrow> (Inl (abort 422 None), d)
           | Inr d' \<Rightarrow> (Inr (JObj [(''success'', JBool True), (''delete'', JInt drink_id)]), d')))"

subsection \<open>Error handlers and the application's dispatch\<close>

text \<open>\<^verbatim>\<open>error.description or fallback\<close>: \<^verbatim>\<open>None\<close> and the empty string are falsy.\<close>

definition description_or :: "http_exception \<Rightarrow> string \<Rightarrow> string" where
  "description_or error fallback =
     (case description error of
        None \<Rightarrow> fallback
      | Some m \<Rightarrow> if m = [] then fallback else m)"

text \<open>The six handlers (lines 186 to 248); each returns the body and the status.\<close>

definition unprocessable :: "http_exception \<Rightarrow> json \<times> nat" where
  "unprocessable error =
     (JObj [(''success'', JBool False), (''error'', JInt 422),
            (''message'', JStr ''unprocessable'')], 422)"

definition not_found :: "http_exception \<Rightarrow> json \<times> nat" where
  "not_found error =
     (JObj [(''success'', JBool False), (''error'', JInt 404),
            (''message'', JStr ''resource not found'')], 404)"

definition bad_request :: "http_exception \<Rightarrow> json \<times> nat" where
  "bad_request error =
     (JObj [(''success'', JBool False), (''error'', JInt 400),
            (''message'', JStr (description_or error ''bad request''))], 400)"

definition forbidden :: "http_exception \<Rightarrow> json \<times> nat" where
  "forbidden error =
     (JObj [(''success'', JBool False), (''error'', JInt 403),
            (''message'', JStr (description_or error ''forbidden''))], 403)"

definition unauthorized :: "http_exception \<Rightarrow> json \<times> nat" where
  "unauthorized error =
     (JObj [(''success'', JBool False), (''error'', JInt 401),
            (''message'', JStr (description_or error ''unauthorized''))], 401)"

definition server_error :: "http_exception \<Rightarrow> json \<times> nat" where
  "server_error error =
     (JObj [(''success'', JBool False), (''error'', JInt 500),
            (''message'', JStr ''internal server error'')], 500)"

text \<open>The registry the \<^verbatim>\<open>@app.errorhandler(code)\<close> decorators fill.\<close>

definition errorhandler :: "nat \<Rightarrow> (http_exception \<Rightarrow> json \<times> nat) option" where
  "errorhandler c =
     (if c = 422 then Some unprocessable
      else if c = 404 then Some not_found
      else if c = 400 then Some bad_request
      else if c = 403 then Some forbidden
      else if c = 401 then Some unauthorized
      else if c = 500 then Some server_error
      else None)"

text \<open>
  A response: the status and the content, JSON from \<^verbatim>\<open>jsonify\<close> or the HTML page
  werkzeug renders for an exception no handler is registered for.
\<close>

datatype content = Json json | Html string

record response =
  status :: nat
  content :: content

text \<open>
  Flask's dispatch: a returned value is a 200 response; an \<^verbatim>\<open>HTTPException\<close> goes to
  the handler registered for its code, or is its own response; any other exception
  is wrapped in an \<^verbatim>\<open>InternalServerError\<close> and goes to the handler of 500.
\<close>

definition handle_http_exception :: "http_exception \<Rightarrow> response" where
  "handle_http_exception e =
     (case errorhandler (code e) of
        Some h \<Rightarrow> \<lparr>status = snd (h e), content = Json (fst (h e))\<rparr>
      | None \<Rightarrow>
          \<lparr>status = code e,
           content = Html (case description e of None \<Rightarrow> [] | Some m \<Rightarrow> m)\<rparr>)"

definition handle_exception :: "exn \<Rightarrow> response" where
  "handle_exception e =
     handle_http_exception \<lparr>code = 500, description = class_description 500\<rparr>"

definition full_dispatch_request :: "exn + json \<Rightarrow> response" where
  "full_dispatch_request rv =
     (case rv of
        Inr v \<Rightarrow> \<lparr>status = 200, content = Json v\<rparr>
      | Inl (HTTPException e) \<Rightarrow> handle_http_exception e
      | Inl e \<Rightarrow> handle_exception e)"

text \<open>A handler that also leaves a table behind: the response and that table.\<close>

definition respond :: "(exn + json) \<times> db \<Rightarrow> response \<times> db" where
  "respond r = (full_dispatch_request (fst r), snd r)"

text \<open>
  The error envelope of the spec's section 4.6, \<^verbatim>\<open>{success: false, error: c, message: m}\<close>
  sent with status \<open>c\<close>; the results below are stated with it.
\<close>

definition envelope :: "nat \<Rightarrow> string \<Rightarrow> response" where
  "envelope c m =
     \<lparr>status = c,
      content = Json (JObj [(''success'', JBool False), (''error'', JInt (int c)),
                            (''message'', JStr m)])\<rparr>"

text \<open>
  For stating results: an ingredient object that has the fields \<^verbatim>\<open>name\<close>, \<^verbatim>\<open>color\<close> and
  \<^verbatim>\<open>parts\<close>, and one that is valid as the data model has it, with these fields and no
  falsy value.
\<close>

definition has_fields :: "(string \<times> json) list \<Rightarrow> bool" where
  "has_fields ing = list_all (\<lambda>f. f \<in> set (map fst ing)) [''name'', ''color'', ''parts'']"

definition valid_ingredient :: "(string \<times> json) list \<Rightarrow> bool" where
  "valid_ingredient ing = (has_fields ing \<and> list_all (\<lambda>kv. truthy (snd kv)) ing)"

text \<open>Concrete data for the instances below.\<close>

definition milk :: "(string \<times> json) list" where
  "milk = [(''name'', JStr ''milk''), (''color'', JStr ''white''), (''parts'', JInt 1)]"

definition water :: "(string \<times> json) list" where
  "water = [(''name'', JStr ''water''), (''color'', JStr ''blue''), (''parts'', JInt 0)]"

definition syrup :: "(string \<times> json) list" where
  "syrup = [(''name'', JStr ''syrup''), (''color'', JStr ''brown'')]"

definition sugar :: "(string \<times> json) list" where
  "sugar = [(''name'', JStr ''sugar'')]"

definition latte_body :: json where
  "latte_body = JObj [(''title'', JStr ''Latte''), (''recipe'', JObj milk)]"

definition empty_table :: db where
  "empty_table = \<lparr>rows = [], next_id = 1\<rparr>"

definition latte_table :: db where
  "latte_table =
     \<lparr>rows = [\<lparr>id_col = 1, title = ''Latte'', recipe = Dumps (JArr [JObj milk])\<rparr>],
      next_id = 2\<rparr>"

section \<open>What the dispatch makes of each outcome\<close>

lemma dispatch_returned:
  "full_dispatch_request (Inr v) = \<lparr>status = 200, content = Json v\<rparr>"
  by (simp add: full_dispatch_request_def)

lemma dispatch_abort_404:
  "full_dispatch_request (Inl (abort 404 None)) = envelope 404 ''resource not found''"
  by (simp add: full_dispatch_request_def abort_def handle_http_exception_def errorhandler_def
        not_found_def envelope_def)

lemma dispatch_abort_422:
  "full_dispatch_request (Inl (abort 422 None)) = envelope 422 ''unprocessable''"
  by (simp add: full_dispatch_request_def abort_def handle_http_exception_def errorhandler_def
        unprocessable_def envelope_def)

lemma dispatch_abort_400:
  "m \<noteq> [] \<Longrightarrow> full_dispatch_request (Inl (abort 400 (Some m))) = envelope 400 m"
  by (simp add: full_dispatch_request_def abort_def handle_http_exception_def errorhandler_def
        bad_request_def description_or_def envelope_def)

lemma dispatch_unhandled:
  "\<forall>h. e \<noteq> HTTPException h \<Longrightarrow>
   full_dispatch_request (Inl e) = envelope 500 ''internal server error''"
  by (cases e)
     (simp_all add: full_dispatch_request_def handle_exception_def handle_http_exception_def
        errorhandler_def server_error_def envelope_def)

lemma dispatch_raised_not_success:
  "full_dispatch_request (Inl e) \<noteq> \<lparr>status = 200, content = Json (success_drinks xs)\<rparr>"
proof (cases e)
  case (HTTPException h)
  then show ?thesis
    by (auto simp: full_dispatch_request_def handle_http_exception_def errorhandler_def
          unprocessable_def not_found_def bad_request_def forbidden_def unauthorized_def
          server_error_def success_drinks_def split: if_splits)
qed (simp_all add: dispatch_unhandled envelope_def)

section \<open>Listing an empty table\<close>

lemma map_exn_length: "map_exn f xs = Inr ys \<Longrightarrow> length ys = length xs"
  by (induction xs arbitrary: ys) (auto split: sum.splits)

text \<open>Whatever the table holds, \<^verbatim>\<open>GET /drinks\<close> never answers 200 with an empty list.\<close>

lemma get_drinks_never_empty_list:
  "full_dispatch_request (get_drinks d) \<noteq> \<lparr>status = 200, content = Json (success_drinks [])\<rparr>"
proof (cases "map_exn short (sort_key id_col (rows d))")
  case (Inl e)
  then show ?thesis
    by (simp add: get_drinks_def dispatch_raised_not_success)
next
  case (Inr ys)
  show ?thesis
  proof (cases "ys = []")
    case True
    with Inr show ?thesis
      by (simp add: get_drinks_def dispatch_raised_not_success)
  next
    case False
    with Inr show ?thesis
      by (simp add: get_drinks_def dispatch_returned success_drinks_def)
  qed
qed

text \<open>
  Claim C2. When the table holds no row, \<^verbatim>\<open>GET /drinks\<close> and \<^verbatim>\<open>GET /drinks-detail\<close> (the
  handler the authorization decorator calls with the token's payload) both answer
  with the 404 envelope, so neither answers 200 with an empty \<^verbatim>\<open>drinks\<close> array.
\<close>

theorem get_drinks_empty_table:
  assumes "rows d = []"
  shows "full_dispatch_request (get_drinks d) = envelope 404 ''resource not found''
       \<and> full_dispatch_request (get_drinks_detail payload d) = envelope 404 ''resource not found''
       \<and> status (full_dispatch_request (get_drinks d)) \<noteq> 200
       \<and> status (full_dispatch_request (get_drinks_detail payload d)) \<noteq> 200"
  using assms
  by (simp add: get_drinks_def get_drinks_detail_def dispatch_abort_404 envelope_def)

theorem get_drinks_empty_table_witness:
  "rows \<lparr>rows = [], next_id = 1\<rparr> = []
   \<and> full_dispatch_request (get_drinks \<lparr>rows = [], next_id = 1\<rparr>)
       = envelope 404 ''resource not found''
   \<and> full_dispatch_request (get_drinks_detail JNull \<lparr>rows = [], next_id = 1\<rparr>)
       = envelope 404 ''resource not found''"
  using get_drinks_empty_table [of "\<lparr>rows = [], next_id = 1\<rparr>" JNull] by simp

section \<open>The error handlers\<close>

text \<open>
  Claim C8. Every handler registered with \<^verbatim>\<open>@app.errorhandler(c)\<close> returns, for every
  error it is given, the body \<^verbatim>\<open>{success: false, error: c, message: m}\<close> with a string
  \<open>m\<close> and the status \<open>c\<close>; the registered codes, and so the statuses the handlers
  produce, are exactly 400, 401, 403, 404, 422 and 500.
\<close>

theorem error_handlers_envelope:
  "(errorhandler c = Some h \<longrightarrow>
      (\<exists>m. h e = (JObj [(''success'', JBool False), (''error'', JInt (int c)),
                          (''message'', JStr m)], c)))
   \<and> ((errorhandler c \<noteq> None) = (c \<in> {400, 401, 403, 404, 422, 500}))
   \<and> ((\<exists>c' h' e'. errorhandler c' = Some h' \<and> snd (h' e') = s)
        = (s \<in> {400, 401, 403, 404, 422, 500}))"
proof (intro conjI)
  show "errorhandler c = Some h \<longrightarrow>
      (\<exists>m. h e = (JObj [(''success'', JBool False), (''error'', JInt (int c)),
                          (''message'', JStr m)], c))"
    by (auto simp: errorhandler_def unprocessable_def not_found_def bad_request_def
          forbidden_def unauthorized_def server_error_def split: if_splits)
  show "(errorhandler c \<noteq> None) = (c \<in> {400, 401, 403, 404, 422, 500})"
    by (auto simp: errorhandler_def)
  have fwd: "snd (h' e') = c'" if "errorhandler c' = Some h'" for c' h' e'
    using that
    by (auto simp: errorhandler_def unprocessable_def not_found_def bad_request_def
          forbidden_def unauthorized_def server_error_def split: if_splits)
  have dom: "errorhandler c' \<noteq> None \<longleftrightarrow> c' \<in> {400, 401, 403, 404, 422, 500}" for c'
    by (auto simp: errorhandler_def)
  show "(\<exists>c' h' e'. errorhandler c' = Some h' \<and> snd (h' e') = s)
        = (s \<in> {400, 401, 403, 404, 422, 500})"
  proof
    assume "\<exists>c' h' e'. errorhandler c' = Some h' \<and> snd (h' e') = s"
    then obtain c' h' e' where *: "errorhandler c' = Some h'" "snd (h' e') = s" by blast
    from fwd[OF *(1)] *(2) have "c' = s" by simp
    with *(1) dom[of s] show "s \<in> {400, 401, 403, 404, 422, 500}" by simp
  next
    assume "s \<in> {400, 401, 403, 404, 422, 500}"
    with dom[of s] obtain h' where h: "errorhandler s = Some h'" by auto
    from fwd[OF h] have "snd (h' undefined) = s" .
    with h show "\<exists>c' h' e'. errorhandler c' = Some h' \<and> snd (h' e') = s" by blast
  qed
qed

theorem error_handlers_envelope_witness:
  "errorhandler 400 = Some bad_request
   \<and> (\<exists>m. bad_request \<lparr>code = 400, description = Some ''Drink may already exist''\<rparr> =
         (JObj [(''success'', JBool False), (''error'', JInt 400), (''message'', JStr m)], 400))
   \<and> errorhandler 400 \<noteq> None
   \<and> (\<exists>c' h' e'. errorhandler c' = Some h' \<and> snd (h' e') = 400)"
  using error_handlers_envelope
          [of 400 bad_request "\<lparr>code = 400, description = Some ''Drink may already exist''\<rparr>" 400]
  by (simp add: errorhandler_def)

section \<open>A body that is \<^verbatim>\<open>None\<close>\<close>

text \<open>
  Claim C10. When \<^verbatim>\<open>request.get_json()\<close> returns \<^verbatim>\<open>None\<close>, \<^verbatim>\<open>create_drink\<close> raises on
  \<^verbatim>\<open>body.get\<close> and \<^verbatim>\<open>update_drink\<close> on \<^verbatim>\<open>field in body\<close>, both outside any \<^verbatim>\<open>try\<close>: the
  response is the 500 envelope, not a 400, and the table is as before.
\<close>

theorem none_body_is_500:
  "respond (create_drink seed payload JNull d) = (envelope 500 ''internal server error'', d)
   \<and> respond (update_drink seed payload drink_id JNull d) = (envelope 500 ''internal server error'', d)"
  by (simp add: respond_def create_drink_def update_drink_def required_field_def update_checks_def
        supplied_field_def dispatch_unhandled)

section \<open>The order in which a set iterates\<close>

lemma length_insert_at: "length (insert_at n x ys) = Suc (length ys)"
  by (induction n x ys rule: insert_at.induct) simp_all

lemma set_insert_at: "set (insert_at n x ys) = insert x (set ys)"
  by (induction n x ys rule: insert_at.induct) auto

lemma insert_at_append: "insert_at (length as) x (as @ bs) = as @ x # bs"
  by (induction as) simp_all

lemma length_set_order: "length (set_order seed xs) = length xs"
  by (induction xs arbitrary: seed) (simp_all add: length_insert_at)

lemma set_set_order: "set (set_order seed xs) = set xs"
  by (induction xs arbitrary: seed) (simp_all add: set_insert_at)

lemma set_order_Nil: "(set_order seed xs = []) = (xs = [])"
  using length_set_order [of seed xs] by (cases xs) auto

lemma set_order_single: "set_order seed [x] = [x]"
  by simp

lemma position:
  fixes a n q :: nat
  assumes "a < n"
  shows "(a + n * q) mod n = a" and "(a + n * q) div n = q"
  using assms by simp_all

text \<open>Every order of a set's elements is the one some seed selects.\<close>

lemma set_order_any:
  "distinct xs \<Longrightarrow> distinct ys \<Longrightarrow> set ys = set xs \<Longrightarrow> \<exists>seed. set_order seed xs = ys"
proof (induction xs arbitrary: ys)
  case Nil
  then show ?case by simp
next
  case (Cons x xs)
  from Cons.prems have "x \<in> set ys" by simp
  then obtain as bs where ys: "ys = as @ x # bs"
    by (auto dest: split_list)
  from Cons.prems ys have rest: "distinct (as @ bs)" "set (as @ bs) = set xs"
    by auto
  from Cons.prems have "distinct xs" by simp
  from Cons.IH [OF this rest] obtain seed' where seed': "set_order seed' xs = as @ bs"
    by blast
  from rest \<open>distinct xs\<close> have "length (as @ bs) = length xs"
    by (metis distinct_card)
  then have pos: "length as < Suc (length xs)" by simp
  let ?seed = "length as + Suc (length xs) * seed'"
  from position [OF pos, of seed']
  have "set_order ?seed (x # xs) = insert_at (length as) x (as @ bs)"
    using seed' by (simp only: set_order.simps)
  with ys show ?case
    by (auto simp: insert_at_append)
qed

section \<open>Looking a drink up by id\<close>

lemma filter_absent: "k \<notin> set (map f xs) \<Longrightarrow> filter (\<lambda>x. f x = k) xs = []"
  by (induction xs) auto

lemma filter_unique:
  "distinct (map f xs) \<Longrightarrow> x \<in> set xs \<Longrightarrow> filter (\<lambda>y. f y = f x) xs = [x]"
proof (induction xs)
  case Nil
  then show ?case by simp
next
  case (Cons a xs)
  show ?case
  proof (cases "a = x")
    case True
    with Cons.prems have "f x \<notin> set (map f xs)" by simp
    then have "filter (\<lambda>y. f y = f x) xs = []" by (rule filter_absent)
    with True show ?thesis by simp
  next
    case False
    with Cons.prems have x: "x \<in> set xs" and d: "distinct (map f xs)" by auto
    from Cons.prems x have "f a \<noteq> f x" by force
    with Cons.IH[OF d x] show ?thesis by simp
  qed
qed

lemma one_or_none_overflow:
  "\<not> sqlite_integer drink_id \<Longrightarrow> one_or_none drink_id d = Inl OverflowError"
  by (simp add: one_or_none_def)

lemma one_or_none_absent:
  "sqlite_integer drink_id \<Longrightarrow> drink_id \<notin> set (map id_col (rows d)) \<Longrightarrow>
   one_or_none drink_id d = Inr None"
  by (simp add: one_or_none_def filter_absent)

lemma one_or_none_present:
  "sqlite_integer (id_col row) \<Longrightarrow> distinct (map id_col (rows d)) \<Longrightarrow> row \<in> set (rows d) \<Longrightarrow>
   one_or_none (id_col row) d = Inr (Some row)"
  by (simp add: one_or_none_def filter_unique)

lemma one_or_none_not_found:
  "drink_id \<notin> set (map id_col (rows d)) \<Longrightarrow>
   one_or_none drink_id d = Inr None \<or> one_or_none drink_id d = Inl OverflowError"
  by (cases "sqlite_integer drink_id") (simp_all add: one_or_none_absent one_or_none_overflow)

section \<open>Updating a drink that does not exist\<close>

text \<open>
  Claim C1. The claim asks for the 404 envelope when \<^verbatim>\<open>PATCH /drinks/<id>\<close> names no
  stored drink. The handler calls \<^verbatim>\<open>abort(404)\<close> inside its \<^verbatim>\<open>try\<close>, and
  \<^verbatim>\<open>except Exception\<close> catches the exception and calls \<^verbatim>\<open>abort(422)\<close>: whenever the
  body passes the checks and no row has the id, the response is the 422 envelope.
  The table is left as it was.
\<close>

theorem update_drink_unknown_id:
  assumes "update_checks seed body = Inr ()"
      and "drink_id \<notin> set (map id_col (rows d))"
  shows "respond (update_drink seed payload drink_id body d) = (envelope 422 ''unprocessable'', d)"
  using assms(1) one_or_none_not_found [OF assms(2)]
  by (auto simp: respond_def update_drink_def update_try_def dispatch_abort_422)

theorem update_drink_unknown_id_witness:
  "update_checks 0 (JObj [(''title'', JStr ''Mocha'')]) = Inr ()
   \<and> (7::int) \<notin> set (map id_col (rows empty_table))
   \<and> respond (update_drink 0 JNull 7 (JObj [(''title'', JStr ''Mocha'')]) empty_table)
       = (envelope 422 ''unprocessable'', empty_table)"
proof -
  have c: "update_checks 0 (JObj [(''title'', JStr ''Mocha'')]) = Inr ()"
    by (simp add: update_checks_def supplied_field_def)
  have a: "(7::int) \<notin> set (map id_col (rows empty_table))"
    by (simp add: empty_table_def)
  from update_drink_unknown_id [OF c a, where payload = JNull] c a show ?thesis by simp
qed

section \<open>Deleting a drink\<close>

text \<open>
  Claim C7. \<^verbatim>\<open>DELETE /drinks/<id>\<close>, for an id the table's 64-bit \<^verbatim>\<open>INTEGER\<close> can hold: when
  no row has the id, the response is the 404 envelope and the table is unchanged;
  when the id is that of a row (ids being the primary key, so distinct), the row is
  removed and the body is \<^verbatim>\<open>{success: true, delete: id}\<close> with the requested id, and a
  second \<^verbatim>\<open>DELETE\<close> of the same id then answers 404 and changes nothing. For an id
  outside that range, which the route accepts and no row can have, the lookup raises
  before the \<^verbatim>\<open>try\<close> and the response is the 500 envelope, where the claim and the
  handler's comment ask for 404; the table is unchanged.
\<close>

theorem delete_drink_contract:
  "(sqlite_integer drink_id \<and> drink_id \<notin> set (map id_col (rows d)) \<longrightarrow>
      respond (delete_drink payload drink_id d) = (envelope 404 ''resource not found'', d))
   \<and> (sqlite_integer drink_id \<and> distinct (map id_col (rows d))
        \<and> drink_id \<in> set (map id_col (rows d)) \<longrightarrow>
      respond (delete_drink payload drink_id d)
        = (\<lparr>status = 200,
             content = Json (JObj [(''success'', JBool True), (''delete'', JInt drink_id)])\<rparr>,
           d\<lparr>rows := filter (\<lambda>x. id_col x \<noteq> drink_id) (rows d)\<rparr>)
      \<and> respond (delete_drink payload' drink_id (snd (respond (delete_drink payload drink_id d))))
        = (envelope 404 ''resource not found'',
           d\<lparr>rows := filter (\<lambda>x. id_col x \<noteq> drink_id) (rows d)\<rparr>))
   \<and> (\<not> sqlite_integer drink_id \<longrightarrow>
      respond (delete_drink payload drink_id d) = (envelope 500 ''internal server error'', d))"
proof -
  have absent: "respond (delete_drink payload drink_id d) = (envelope 404 ''resource not found'', d)"
    if "sqlite_integer drink_id \<and> drink_id \<notin> set (map id_col (rows d))"
    using that
    by (simp add: respond_def delete_drink_def one_or_none_absent dispatch_abort_404)
  have present: "respond (delete_drink payload drink_id d)
        = (\<lparr>status = 200,
             content = Json (JObj [(''success'', JBool True), (''delete'', JInt drink_id)])\<rparr>,
           d\<lparr>rows := filter (\<lambda>x. id_col x \<noteq> drink_id) (rows d)\<rparr>)
      \<and> respond (delete_drink payload' drink_id (snd (respond (delete_drink payload drink_id d))))
        = (envelope 404 ''resource not found'',
           d\<lparr>rows := filter (\<lambda>x. id_col x \<noteq> drink_id) (rows d)\<rparr>)"
    if h: "sqlite_integer drink_id \<and> distinct (map id_col (rows d))
        \<and> drink_id \<in> set (map id_col (rows d))"
  proof -
    from h obtain row where row: "row \<in> set (rows d)" "id_col row = drink_id" by auto
    from h row have "one_or_none drink_id d = Inr (Some row)"
      using one_or_none_present [of row d] by simp
    with row have first: "respond (delete_drink payload drink_id d)
        = (\<lparr>status = 200,
             content = Json (JObj [(''success'', JBool True), (''delete'', JInt drink_id)])\<rparr>,
           d\<lparr>rows := filter (\<lambda>x. id_col x \<noteq> drink_id) (rows d)\<rparr>)"
      by (simp add: respond_def delete_drink_def delete_row_def dispatch_returned)
    have "drink_id \<notin> set (map id_col (rows (d\<lparr>rows := filter (\<lambda>x. id_col x \<noteq> drink_id) (rows d)\<rparr>)))"
      by auto
    with h have "respond (delete_drink payload' drink_id
                   (snd (respond (delete_drink payload drink_id d))))
        = (envelope 404 ''resource not found'',
           d\<lparr>rows := filter (\<lambda>x. id_col x \<noteq> drink_id) (rows d)\<rparr>)"
      unfolding first
      by (simp add: respond_def delete_drink_def one_or_none_absent dispatch_abort_404)
    with first show ?thesis by blast
  qed
  have overflow: "respond (delete_drink payload drink_id d)
                    = (envelope 500 ''internal server error'', d)"
    if "\<not> sqlite_integer drink_id"
    using that
    by (simp add: respond_def delete_drink_def one_or_none_overflow dispatch_unhandled)
  from absent present overflow show ?thesis by blast
qed

theorem delete_drink_contract_witness:
  "sqlite_integer 2 \<and> sqlite_integer 1
   \<and> (2::int) \<notin> set (map id_col (rows latte_table))
   \<and> respond (delete_drink JNull 2 latte_table) = (envelope 404 ''resource not found'', latte_table)
   \<and> distinct (map id_col (rows latte_table))
   \<and> (1::int) \<in> set (map id_col (rows latte_table))
   \<and> respond (delete_drink JNull 1 latte_table)
       = (\<lparr>status = 200,
            content = Json (JObj [(''success'', JBool True), (''delete'', JInt 1)])\<rparr>,
          \<lparr>rows = [], next_id = 2\<rparr>)
   \<and> respond (delete_drink JNull 1 (snd (respond (delete_drink JNull 1 latte_table))))
       = (envelope 404 ''resource not found'', \<lparr>rows = [], next_id = 2\<rparr>)
   \<and> \<not> sqlite_integer 9223372036854775808
   \<and> respond (delete_drink JNull 9223372036854775808 latte_table)
       = (envelope 500 ''internal server error'', latte_table)"
proof -
  have range: "sqlite_integer 2" "sqlite_integer 1" "\<not> sqlite_integer 9223372036854775808"
    by (simp_all add: sqlite_integer_def)
  have absent: "(2::int) \<notin> set (map id_col (rows latte_table))"
    and keyed: "distinct (map id_col (rows latte_table))"
    and present: "(1::int) \<in> set (map id_col (rows latte_table))"
    and removed: "latte_table\<lparr>rows := filter (\<lambda>x. id_col x \<noteq> 1) (rows latte_table)\<rparr>
                    = \<lparr>rows = [], next_id = 2\<rparr>"
    by (simp_all add: latte_table_def)
  from delete_drink_contract [of 2 latte_table JNull JNull] range absent
  have first: "respond (delete_drink JNull 2 latte_table)
                 = (envelope 404 ''resource not found'', latte_table)"
    by blast
  from delete_drink_contract [of 1 latte_table JNull JNull] range keyed present
  have second: "respond (delete_drink JNull 1 latte_table)
        = (\<lparr>status = 200,
             content = Json (JObj [(''success'', JBool True), (''delete'', JInt 1)])\<rparr>,
           latte_table\<lparr>rows := filter (\<lambda>x. id_col x \<noteq> 1) (rows latte_table)\<rparr>)"
    and third: "respond (delete_drink JNull 1 (snd (respond (delete_drink JNull 1 latte_table))))
        = (envelope 404 ''resource not found'',
           latte_table\<lparr>rows := filter (\<lambda>x. id_col x \<noteq> 1) (rows latte_table)\<rparr>)"
    by blast+
  from delete_drink_contract [of 9223372036854775808 latte_table JNull JNull] range
  have fourth: "respond (delete_drink JNull 9223372036854775808 latte_table)
       = (envelope 500 ''internal server error'', latte_table)"
    by blast
  from range absent keyed present first second third fourth show ?thesis
    unfolding removed by simp
qed

section \<open>The check for the long format\<close>

lemma difference_object:
  "difference seed required (JObj ing)
     = Inr (set_order seed (filter (\<lambda>f. f \<notin> set (map fst ing)) required))"
proof -
  have "\<not> list_ex (\<lambda>y. \<not> hashable y) (map (\<lambda>kv. JStr (fst kv)) ing)"
    by (simp add: list_ex_iff)
  moreover have "(JStr f \<notin> set (map (\<lambda>kv. JStr (fst kv)) ing)) = (f \<notin> set (map fst ing))" for f
    by auto
  ultimately show ?thesis
    by (simp add: difference_def)
qed

lemma recipe_values_truthy:
  "list_all (\<lambda>kv. truthy (snd kv)) ing \<Longrightarrow> recipe_values ing = Inr ()"
  by (induction ing) auto

lemma recipe_values_first_falsy:
  "find (\<lambda>kv. \<not> truthy (snd kv)) ing = Some (k, v) \<Longrightarrow>
   recipe_values ing = Inl (abort 400 (Some (''Missing required recipe field: '' @ k)))"
  by (induction ing) (auto split: if_splits)

lemma recipe_values_cases:
  "recipe_values ing = Inr () \<or>
   (\<exists>m. m \<noteq> [] \<and> recipe_values ing = Inl (abort 400 (Some m)))"
proof (induction ing)
  case Nil
  then show ?case by simp
next
  case (Cons kv ing)
  obtain k v where kv: "kv = (k, v)" by (cases kv)
  show ?case
  proof (cases "truthy v")
    case True
    with Cons kv show ?thesis by simp
  next
    case False
    have "''Missing required recipe field: '' @ k \<noteq> []" by simp
    with False kv show ?thesis by auto
  qed
qed

lemma long_format_valid: "valid_ingredient ing \<Longrightarrow> long_format seed (JObj ing) = Inr ()"
  by (simp add: long_format_def difference_object set_order_Nil valid_ingredient_def
        has_fields_def recipe_values_truthy)

lemma valid_ingredient_nonempty: "valid_ingredient ing \<Longrightarrow> ing \<noteq> []"
  by (auto simp: valid_ingredient_def has_fields_def)

lemma long_format_object_cases:
  "long_format seed (JObj ing) = Inr () \<or>
   (\<exists>m. m \<noteq> [] \<and> long_format seed (JObj ing) = Inl (abort 400 (Some m)))"
  using recipe_values_cases [of ing]
  by (auto simp: long_format_def difference_object set_order_Nil)

lemma valid_milk: "valid_ingredient milk"
  by (simp add: valid_ingredient_def has_fields_def milk_def)

section \<open>Creating a drink\<close>

lemma create_drink_success:
  assumes "create_drink seed payload body d = (Inr r, d1)"
  shows "\<exists>t rcp. py_get body ''title'' = Inr (JStr t) \<and> t \<noteq> [] \<and> t \<notin> set (map title (rows d))
           \<and> py_get body ''recipe'' = Inr rcp \<and> long_format seed rcp = Inr ()
           \<and> d1 = \<lparr>rows = rows d @ [\<lparr>id_col = next_id d, title = t,
                                       recipe = json_dumps (JArr [rcp])\<rparr>],
                   next_id = next_id d + 1\<rparr>
           \<and> r = success_drinks [long \<lparr>id_col = next_id d, title = t,
                                       recipe = json_dumps (JArr [rcp])\<rparr>]"
  using assms
  by (auto simp: create_drink_def required_field_def insert_drink_def Let_def
        split: sum.splits if_splits json.splits)

lemma create_latte:
  "create_drink 0 JNull latte_body empty_table
     = (Inr (success_drinks [long \<lparr>id_col = 1, title = ''Latte'',
                                  recipe = Dumps (JArr [JObj milk])\<rparr>]), latte_table)"
  using valid_ingredient_nonempty [OF valid_milk]
  by (simp add: create_drink_def latte_body_def empty_table_def latte_table_def required_field_def
        long_format_valid valid_milk insert_drink_def Let_def json_dumps_def)

text \<open>
  Claim C3. A \<^verbatim>\<open>POST /drinks\<close> whose body has a non-empty string title not yet in the
  table and, as recipe, one ingredient object with name, color and parts and no falsy
  value: the row stored has the recipe \<^verbatim>\<open>json.dumps([ingredient])\<close>, and the response
  is 200 with the body \<^verbatim>\<open>{success: true, drinks: [d]}\<close> where the recipe of \<open>d\<close> is the
  one-element list holding the ingredient as it was sent. And whenever the handler
  returns a body at all, the row it stored and the body have this shape, for the
  title and the recipe of the request.
\<close>

theorem create_drink_valid_payload:
  "(map_of kvs ''title'' = Some (JStr t) \<and> t \<noteq> []
      \<and> map_of kvs ''recipe'' = Some (JObj ing) \<and> valid_ingredient ing
      \<and> t \<notin> set (map title (rows d)) \<longrightarrow>
    respond (create_drink seed payload (JObj kvs) d) =
      (\<lparr>status = 200,
        content = Json (JObj [(''success'', JBool True),
                              (''drinks'', JArr [JObj [(''id'', JInt (next_id d)),
                                                       (''title'', JStr t),
                                                       (''recipe'', JArr [JObj ing])]])])\<rparr>,
       \<lparr>rows = rows d @ [\<lparr>id_col = next_id d, title = t,
                            recipe = json_dumps (JArr [JObj ing])\<rparr>],
        next_id = next_id d + 1\<rparr>))
   \<and> (create_drink seed payload body d = (Inr r, d') \<longrightarrow>
        (\<exists>t' rcp. py_get body ''title'' = Inr (JStr t') \<and> py_get body ''recipe'' = Inr rcp
           \<and> d' = \<lparr>rows = rows d @ [\<lparr>id_col = next_id d, title = t',
                                       recipe = json_dumps (JArr [rcp])\<rparr>],
                   next_id = next_id d + 1\<rparr>
           \<and> r = JObj [(''success'', JBool True),
                       (''drinks'', JArr [JObj [(''id'', JInt (next_id d)),
                                                (''title'', JStr t'),
                                                (''recipe'', JArr [rcp])]])]))"
proof -
  have valid: "respond (create_drink seed payload (JObj kvs) d) =
      (\<lparr>status = 200,
        content = Json (JObj [(''success'', JBool True),
                              (''drinks'', JArr [JObj [(''id'', JInt (next_id d)),
                                                       (''title'', JStr t),
                                                       (''recipe'', JArr [JObj ing])]])])\<rparr>,
       \<lparr>rows = rows d @ [\<lparr>id_col = next_id d, title = t,
                            recipe = json_dumps (JArr [JObj ing])\<rparr>],
        next_id = next_id d + 1\<rparr>)"
    if "map_of kvs ''title'' = Some (JStr t) \<and> t \<noteq> []
      \<and> map_of kvs ''recipe'' = Some (JObj ing) \<and> valid_ingredient ing
      \<and> t \<notin> set (map title (rows d))"
    using that valid_ingredient_nonempty [of ing]
    by (simp add: respond_def create_drink_def required_field_def long_format_valid
          insert_drink_def Let_def dispatch_returned success_drinks_def long_def json_dumps_def)
  have returned: "\<exists>t' rcp. py_get body ''title'' = Inr (JStr t') \<and> py_get body ''recipe'' = Inr rcp
           \<and> d' = \<lparr>rows = rows d @ [\<lparr>id_col = next_id d, title = t',
                                       recipe = json_dumps (JArr [rcp])\<rparr>],
                   next_id = next_id d + 1\<rparr>
           \<and> r = JObj [(''success'', JBool True),
                       (''drinks'', JArr [JObj [(''id'', JInt (next_id d)),
                                                (''title'', JStr t'),
                                                (''recipe'', JArr [rcp])]])]"
    if "create_drink seed payload body d = (Inr r, d')"
    using create_drink_success [OF that]
    by (auto simp: success_drinks_def long_def json_dumps_def)
  from valid returned show ?thesis by blast
qed

theorem create_drink_valid_payload_witness:
  "map_of [(''title'', JStr ''Latte''), (''recipe'', JObj milk)] ''title'' = Some (JStr ''Latte'')
   \<and> ''Latte'' \<noteq> []
   \<and> map_of [(''title'', JStr ''Latte''), (''recipe'', JObj milk)] ''recipe'' = Some (JObj milk)
   \<and> valid_ingredient milk
   \<and> ''Latte'' \<notin> set (map title (rows empty_table))
   \<and> respond (create_drink 0 JNull latte_body empty_table) =
        (\<lparr>status = 200,
          content = Json (JObj [(''success'', JBool True),
                                (''drinks'', JArr [JObj [(''id'', JInt 1),
                                                         (''title'', JStr ''Latte''),
                                                         (''recipe'', JArr [JObj milk])]])])\<rparr>,
         latte_table)
   \<and> create_drink 0 JNull latte_body empty_table
        = (Inr (success_drinks [long \<lparr>id_col = 1, title = ''Latte'',
                                     recipe = Dumps (JArr [JObj milk])\<rparr>]), latte_table)
   \<and> (\<exists>t' rcp. py_get latte_body ''title'' = Inr (JStr t')
          \<and> py_get latte_body ''recipe'' = Inr rcp
          \<and> latte_table = \<lparr>rows = rows empty_table @ [\<lparr>id_col = next_id empty_table, title = t',
                                       recipe = json_dumps (JArr [rcp])\<rparr>],
                   next_id = next_id empty_table + 1\<rparr>)"
proof -
  have t: "map_of [(''title'', JStr ''Latte''), (''recipe'', JObj milk)] ''title''
             = Some (JStr ''Latte'')" by simp
  have n: "''Latte'' \<noteq> []" by simp
  have r: "map_of [(''title'', JStr ''Latte''), (''recipe'', JObj milk)] ''recipe''
             = Some (JObj milk)" by simp
  have f: "''Latte'' \<notin> set (map title (rows empty_table))" by (simp add: empty_table_def)
  note inst = create_drink_valid_payload
                [where kvs = "[(''title'', JStr ''Latte''), (''recipe'', JObj milk)]"
                   and t = "''Latte''" and ing = milk and d = empty_table and seed = 0 and payload = JNull
                   and body = latte_body
                   and r = "success_drinks [long \<lparr>id_col = 1, title = ''Latte'',
                                                 recipe = Dumps (JArr [JObj milk])\<rparr>]"
                   and d' = latte_table]
  from inst t n r valid_milk f
  have first: "respond (create_drink 0 JNull
                 (JObj [(''title'', JStr ''Latte''), (''recipe'', JObj milk)]) empty_table) =
      (\<lparr>status = 200,
        content = Json (JObj [(''success'', JBool True),
                              (''drinks'', JArr [JObj [(''id'', JInt (next_id empty_table)),
                                                       (''title'', JStr ''Latte''),
                                                       (''recipe'', JArr [JObj milk])]])])\<rparr>,
       \<lparr>rows = rows empty_table @ [\<lparr>id_col = next_id empty_table, title = ''Latte'',
                            recipe = json_dumps (JArr [JObj milk])\<rparr>],
        next_id = next_id empty_table + 1\<rparr>)"
    by blast
  from inst create_latte
  have second: "\<exists>t' rcp. py_get latte_body ''title'' = Inr (JStr t')
          \<and> py_get latte_body ''recipe'' = Inr rcp
          \<and> latte_table = \<lparr>rows = rows empty_table @ [\<lparr>id_col = next_id empty_table, title = t',
                                       recipe = json_dumps (JArr [rcp])\<rparr>],
                   next_id = next_id empty_table + 1\<rparr>"
    by blast
  from first have first': "respond (create_drink 0 JNull latte_body empty_table) =
        (\<lparr>status = 200,
          content = Json (JObj [(''success'', JBool True),
                                (''drinks'', JArr [JObj [(''id'', JInt 1),
                                                         (''title'', JStr ''Latte''),
                                                         (''recipe'', JArr [JObj milk])]])])\<rparr>,
         latte_table)"
    by (simp add: latte_body_def latte_table_def empty_table_def json_dumps_def)
  from t n r valid_milk f first' create_latte second show ?thesis by blast
qed

section \<open>A second drink with the same title\<close>

lemma status_abort_400:
  "m \<noteq> [] \<Longrightarrow> status (full_dispatch_request (Inl (abort 400 (Some m)))) = 400"
  by (simp add: dispatch_abort_400 envelope_def)

text \<open>
  Claim C5. When a first \<^verbatim>\<open>POST /drinks\<close> has created a drink, a second one with the same
  title whose recipe is any object is answered with status 400 and leaves the table
  as the first request left it, the first drink stored in it; when the second
  ingredient is valid too the response is the 400 envelope with the message of the
  \<^verbatim>\<open>IntegrityError\<close> branch.
\<close>

theorem create_drink_duplicate_title:
  assumes first: "create_drink seed payload1 body1 d = (Inr r1, d1)"
      and same: "py_get body2 ''title'' = py_get body1 ''title''"
      and recipe2: "py_get body2 ''recipe'' = Inr (JObj ing2)"
  shows "snd (respond (create_drink seed' payload2 body2 d1)) = d1
       \<and> status (fst (respond (create_drink seed' payload2 body2 d1))) = 400
       \<and> (valid_ingredient ing2 \<longrightarrow>
            fst (respond (create_drink seed' payload2 body2 d1)) = envelope 400 ''Drink may already exist'')
       \<and> (\<exists>t rcp. py_get body1 ''title'' = Inr (JStr t) \<and> py_get body1 ''recipe'' = Inr rcp
            \<and> rows d1 = rows d @ [\<lparr>id_col = next_id d, title = t,
                                     recipe = json_dumps (JArr [rcp])\<rparr>])"
proof -
  from create_drink_success [OF first] obtain t rcp where
    t: "py_get body1 ''title'' = Inr (JStr t)" "t \<noteq> []"
    and rcp: "py_get body1 ''recipe'' = Inr rcp"
    and d1: "d1 = \<lparr>rows = rows d @ [\<lparr>id_col = next_id d, title = t,
                                       recipe = json_dumps (JArr [rcp])\<rparr>],
                   next_id = next_id d + 1\<rparr>"
    by blast
  from d1 have stored: "t \<in> set (map title (rows d1))" by simp
  from same t have title2: "required_field body2 ''title'' = Inr (JStr t)"
    by (simp add: required_field_def)
  have taken: "insert_drink (JStr t) x d1 = Inl IntegrityError" for x
    using stored by (simp add: insert_drink_def)
  have A: "snd (respond (create_drink seed' payload2 body2 d1)) = d1
       \<and> status (fst (respond (create_drink seed' payload2 body2 d1))) = 400
       \<and> (valid_ingredient ing2 \<longrightarrow>
            fst (respond (create_drink seed' payload2 body2 d1)) = envelope 400 ''Drink may already exist'')"
  proof (cases "ing2 = []")
    case True
    with recipe2 have "required_field body2 ''recipe''
        = Inl (abort 400 (Some (''Missing required field: '' @ ''recipe'')))"
      by (simp add: required_field_def)
    with title2 True show ?thesis
      by (auto simp: respond_def create_drink_def status_abort_400 dest: valid_ingredient_nonempty)
  next
    case False
    with recipe2 have r2: "required_field body2 ''recipe'' = Inr (JObj ing2)"
      by (simp add: required_field_def)
    from long_format_object_cases [of seed' ing2] show ?thesis
    proof
      assume ok: "long_format seed' (JObj ing2) = Inr ()"
      with title2 r2 taken show ?thesis
        by (simp add: respond_def create_drink_def dispatch_abort_400 envelope_def)
    next
      assume "\<exists>m. m \<noteq> [] \<and> long_format seed' (JObj ing2) = Inl (abort 400 (Some m))"
      then obtain m where m: "m \<noteq> []" "long_format seed' (JObj ing2) = Inl (abort 400 (Some m))"
        by blast
      then have "\<not> valid_ingredient ing2"
        using long_format_valid [of ing2 seed'] by auto
      with title2 r2 m show ?thesis
        by (simp add: respond_def create_drink_def status_abort_400)
    qed
  qed
  from t rcp d1 have B: "\<exists>t rcp. py_get body1 ''title'' = Inr (JStr t) \<and> py_get body1 ''recipe'' = Inr rcp
            \<and> rows d1 = rows d @ [\<lparr>id_col = next_id d, title = t,
                                     recipe = json_dumps (JArr [rcp])\<rparr>]"
    by simp
  from A B show ?thesis by blast
qed

theorem create_drink_duplicate_title_witness:
  "create_drink 0 JNull latte_body empty_table
     = (Inr (success_drinks [long \<lparr>id_col = 1, title = ''Latte'',
                                  recipe = Dumps (JArr [JObj milk])\<rparr>]), latte_table)
   \<and> py_get latte_body ''title'' = py_get latte_body ''title''
   \<and> py_get latte_body ''recipe'' = Inr (JObj milk)
   \<and> valid_ingredient milk
   \<and> respond (create_drink 0 JNull latte_body latte_table)
       = (envelope 400 ''Drink may already exist'', latte_table)"
proof -
  have r: "py_get latte_body ''recipe'' = Inr (JObj milk)"
    by (simp add: latte_body_def)
  from create_drink_duplicate_title
         [OF create_latte refl r, where seed' = 0 and ?payload2.0 = JNull] valid_milk
  have "snd (respond (create_drink 0 JNull latte_body latte_table)) = latte_table"
    and "fst (respond (create_drink 0 JNull latte_body latte_table))
           = envelope 400 ''Drink may already exist''"
    by blast+
  then have "respond (create_drink 0 JNull latte_body latte_table)
       = (envelope 400 ''Drink may already exist'', latte_table)"
    by (simp add: prod_eq_iff)
  with create_latte r valid_milk show ?thesis by simp
qed

section \<open>Updating a drink\<close>

lemma py_in_object: "py_in k (JObj kvs) = Inr (map_of kvs k \<noteq> None)"
  by (simp add: map_of_eq_None_iff)

lemma assigned_object:
  "assigned k (JObj kvs) = Inr (map_of kvs k)"
  unfolding assigned_def py_in_object
  by (cases "map_of kvs k") simp_all

lemma one_or_none_Some:
  "one_or_none i d = Inr (Some row) \<Longrightarrow> filter (\<lambda>x. id_col x = i) (rows d) = [row]"
  by (auto simp: one_or_none_def split: list.splits if_splits)

lemma one_or_none_single:
  "sqlite_integer i \<Longrightarrow> filter (\<lambda>x. id_col x = i) (rows d) = [row] \<Longrightarrow>
   one_or_none i d = Inr (Some row)"
  by (simp add: one_or_none_def)

lemma single_id:
  assumes "filter (\<lambda>x. id_col x = i) xs = [row]"
  shows "id_col row = i" and "\<And>x. x \<in> set xs \<Longrightarrow> id_col x = i \<Longrightarrow> x = row"
proof -
  have "row \<in> set (filter (\<lambda>x. id_col x = i) xs)" using assms by simp
  then show "id_col row = i" by simp
  fix x assume "x \<in> set xs" "id_col x = i"
  then have "x \<in> set (filter (\<lambda>x. id_col x = i) xs)" by simp
  with assms show "x = row" by simp
qed

lemma update_drink_success:
  assumes "update_drink seed payload i body d = (Inr r, d')"
  shows "\<exists>row nt nr row'. update_checks seed body = Inr ()
           \<and> one_or_none i d = Inr (Some row)
           \<and> assigned ''title'' body = Inr nt \<and> assigned ''recipe'' body = Inr nr
           \<and> update_row row nt (map_option json_dumps nr) d = Inr (row', d')
           \<and> r = success_drinks [long row']"
  using assms
  by (auto simp: update_drink_def update_try_def split: sum.splits option.splits prod.splits)

lemma update_drink_table:
  "snd (update_drink seed payload i body d) = d \<or>
   (\<exists>row nt nr row' r. one_or_none i d = Inr (Some row)
       \<and> assigned ''title'' body = Inr nt \<and> assigned ''recipe'' body = Inr nr
       \<and> update_row row nt (map_option json_dumps nr) d
            = Inr (row', snd (update_drink seed payload i body d)))"
  by (auto simp: update_drink_def update_try_def split: sum.splits option.splits prod.splits)

lemma update_row_result:
  assumes "update_row row nt nr d = Inr (row', d')"
  shows "id_col row' = id_col row"
    and "recipe row' = (case nr of None \<Rightarrow> recipe row | Some x \<Rightarrow> x)"
    and "title row' = (case nt of None \<Rightarrow> title row | Some v \<Rightarrow> (case v of JStr t \<Rightarrow> t | _ \<Rightarrow> title row))"
    and "d' = d\<lparr>rows := map (\<lambda>x. if id_col x = id_col row then row' else x) (rows d)\<rparr>"
  using assms
  by (auto simp: update_row_def Let_def split: option.splits json.splits sum.splits if_splits)

lemma long_format_passes_object: "long_format seed r = Inr u \<Longrightarrow> \<exists>ing. r = JObj ing"
  by (cases r) (auto simp: long_format_def split: sum.splits if_splits)

lemma update_checks_recipe:
  assumes "update_checks seed (JObj kvs) = Inr ()" and "map_of kvs ''recipe'' = Some rcp"
  shows "long_format seed rcp = Inr ()"
proof -
  from assms(2) have "py_in ''recipe'' (JObj kvs) = Inr True"
    unfolding py_in_object by simp
  with assms show ?thesis
    unfolding update_checks_def
    by (simp split: sum.splits)
qed

lemma filter_replaced:
  "f b = k \<Longrightarrow>
   filter (\<lambda>x. f x = k) (map (\<lambda>x. if f x = k then b else x) xs)
     = map (\<lambda>x. b) (filter (\<lambda>x. f x = k) xs)"
  by (induction xs) auto

lemma filter_others:
  "f b = k \<Longrightarrow>
   filter (\<lambda>x. f x \<noteq> k) (map (\<lambda>x. if f x = k then b else x) xs)
     = filter (\<lambda>x. f x \<noteq> k) xs"
  by (induction xs) auto

section \<open>How a recipe is stored\<close>

lemma not_own_list: "rcp \<noteq> JArr [rcp]"
proof
  assume "rcp = JArr [rcp]"
  then have "size rcp = size (JArr [rcp])" by simp
  then show False by simp
qed

text \<open>
  Claim C9. When a \<^verbatim>\<open>PATCH /drinks/<id>\<close> whose body holds a recipe succeeds (so the
  recipe passed the checks), the one row of that id holds \<^verbatim>\<open>json.dumps(recipe)\<close>, the
  value as given and not wrapped in a list, and that value is an object. The same
  value sent in a successful \<^verbatim>\<open>POST /drinks\<close> is stored as \<^verbatim>\<open>json.dumps([recipe])\<close>, and
  the two stored texts differ.
\<close>

theorem patch_stores_recipe_as_given:
  "(update_drink seed payload i (JObj kvs) d = (Inr r, d') \<and> map_of kvs ''recipe'' = Some rcp \<longrightarrow>
      map recipe (filter (\<lambda>x. id_col x = i) (rows d')) = [json_dumps rcp]
      \<and> (\<exists>ing. rcp = JObj ing))
   \<and> (create_drink seed payload_c (JObj kvs_c) d_c = (Inr r_c, d_c') \<and> map_of kvs_c ''recipe'' = Some rcp \<longrightarrow>
      (\<exists>row. rows d_c' = rows d_c @ [row] \<and> recipe row = json_dumps (JArr [rcp])))
   \<and> json_dumps rcp \<noteq> json_dumps (JArr [rcp])"
proof -
  have patch: "map recipe (filter (\<lambda>x. id_col x = i) (rows d')) = [json_dumps rcp]
      \<and> (\<exists>ing. rcp = JObj ing)"
    if h: "update_drink seed payload i (JObj kvs) d = (Inr r, d') \<and> map_of kvs ''recipe'' = Some rcp"
  proof -
    from update_drink_success [of seed payload i "JObj kvs" d r d'] h
    obtain row nt row' where checks: "update_checks seed (JObj kvs) = Inr ()"
      and row: "one_or_none i d = Inr (Some row)"
      and upd: "update_row row nt (Some (json_dumps rcp)) d = Inr (row', d')"
      by (auto simp: assigned_object)
    from one_or_none_Some [OF row] have single: "filter (\<lambda>x. id_col x = i) (rows d) = [row]" .
    from single_id(1) [OF single] have i: "id_col row = i" .
    from update_row_result [OF upd] i
    have row': "id_col row' = i" "recipe row' = json_dumps rcp"
      and d': "rows d' = map (\<lambda>x. if id_col x = i then row' else x) (rows d)"
      by simp_all
    from d' single row'(1) have "filter (\<lambda>x. id_col x = i) (rows d') = [row']"
      by (simp add: filter_replaced)
    with row'(2) have "map recipe (filter (\<lambda>x. id_col x = i) (rows d')) = [json_dumps rcp]"
      by simp
    moreover from update_checks_recipe [OF checks] h have "\<exists>ing. rcp = JObj ing"
      by (auto dest: long_format_passes_object)
    ultimately show ?thesis by blast
  qed
  have post: "\<exists>row. rows d_c' = rows d_c @ [row] \<and> recipe row = json_dumps (JArr [rcp])"
    if h: "create_drink seed payload_c (JObj kvs_c) d_c = (Inr r_c, d_c') \<and> map_of kvs_c ''recipe'' = Some rcp"
    using create_drink_success [of seed payload_c "JObj kvs_c" d_c r_c d_c'] h by auto
  have differ: "json_dumps rcp \<noteq> json_dumps (JArr [rcp])"
    using not_own_list [of rcp] by (simp add: json_dumps_def)
  from patch post differ show ?thesis by blast
qed

theorem patch_stores_recipe_as_given_witness:
  "update_drink 0 JNull 1 (JObj [(''recipe'', JObj milk)]) latte_table
     = (Inr (success_drinks [long \<lparr>id_col = 1, title = ''Latte'', recipe = Dumps (JObj milk)\<rparr>]),
        \<lparr>rows = [\<lparr>id_col = 1, title = ''Latte'', recipe = Dumps (JObj milk)\<rparr>], next_id = 2\<rparr>)
   \<and> map_of [(''recipe'', JObj milk)] ''recipe'' = Some (JObj milk)
   \<and> map recipe (filter (\<lambda>x. id_col x = 1)
         (rows \<lparr>rows = [\<lparr>id_col = 1, title = ''Latte'', recipe = Dumps (JObj milk)\<rparr>],
                next_id = 2\<rparr>)) = [json_dumps (JObj milk)]
   \<and> create_drink 0 JNull (JObj [(''title'', JStr ''Latte''), (''recipe'', JObj milk)]) empty_table
     = (Inr (success_drinks [long \<lparr>id_col = 1, title = ''Latte'',
                                  recipe = Dumps (JArr [JObj milk])\<rparr>]), latte_table)
   \<and> map_of [(''title'', JStr ''Latte''), (''recipe'', JObj milk)] ''recipe'' = Some (JObj milk)
   \<and> (\<exists>row. rows latte_table = rows empty_table @ [row]
          \<and> recipe row = json_dumps (JArr [JObj milk]))
   \<and> json_dumps (JObj milk) \<noteq> json_dumps (JArr [JObj milk])"
proof -
  have nonempty: "milk \<noteq> []" by (rule valid_ingredient_nonempty [OF valid_milk])
  have patch: "update_drink 0 JNull 1 (JObj [(''recipe'', JObj milk)]) latte_table
     = (Inr (success_drinks [long \<lparr>id_col = 1, title = ''Latte'', recipe = Dumps (JObj milk)\<rparr>]),
        \<lparr>rows = [\<lparr>id_col = 1, title = ''Latte'', recipe = Dumps (JObj milk)\<rparr>], next_id = 2\<rparr>)"
    using nonempty
    by (simp add: update_drink_def update_checks_def supplied_field_def long_format_valid valid_milk
          update_try_def one_or_none_def sqlite_integer_def latte_table_def assigned_def
          update_row_def Let_def json_dumps_def)
  have post: "create_drink 0 JNull (JObj [(''title'', JStr ''Latte''), (''recipe'', JObj milk)])
                empty_table
     = (Inr (success_drinks [long \<lparr>id_col = 1, title = ''Latte'',
                                  recipe = Dumps (JArr [JObj milk])\<rparr>]), latte_table)"
    using nonempty
    by (simp add: create_drink_def empty_table_def latte_table_def required_field_def
          long_format_valid valid_milk insert_drink_def Let_def json_dumps_def)
  have k1: "map_of [(''recipe'', JObj milk)] ''recipe'' = Some (JObj milk)" by simp
  have k2: "map_of [(''title'', JStr ''Latte''), (''recipe'', JObj milk)] ''recipe''
              = Some (JObj milk)" by simp
  from patch_stores_recipe_as_given
         [where seed = 0 and payload = JNull and i = 1 and kvs = "[(''recipe'', JObj milk)]"
            and d = latte_table and rcp = "JObj milk" and payload_c = JNull
            and kvs_c = "[(''title'', JStr ''Latte''), (''recipe'', JObj milk)]"
            and d_c = empty_table]
       patch post k1 k2
  show ?thesis by (simp add: json_dumps_def)
qed

section \<open>What an update replaces\<close>

lemma update_row_frame:
  assumes row: "one_or_none i d = Inr (Some row)"
      and upd: "update_row row nt nr d = Inr (row', d')"
  shows "map id_col (rows d') = map id_col (rows d)"
    and "filter (\<lambda>x. id_col x \<noteq> i) (rows d') = filter (\<lambda>x. id_col x \<noteq> i) (rows d)"
    and "nt = None \<Longrightarrow> map title (rows d') = map title (rows d)"
    and "nr = None \<Longrightarrow> map recipe (rows d') = map recipe (rows d)"
proof -
  from one_or_none_Some [OF row] have single: "filter (\<lambda>x. id_col x = i) (rows d) = [row]" .
  from single_id(1) [OF single] have i: "id_col row = i" .
  from single_id(2) [OF single] have only: "x = row" if "x \<in> set (rows d)" "id_col x = i" for x
    using that by blast
  from update_row_result [OF upd] i
  have id': "id_col row' = i"
    and recipe': "recipe row' = (case nr of None \<Rightarrow> recipe row | Some x \<Rightarrow> x)"
    and title': "title row' = (case nt of None \<Rightarrow> title row
                               | Some v \<Rightarrow> (case v of JStr t \<Rightarrow> t | _ \<Rightarrow> title row))"
    and d': "rows d' = map (\<lambda>x. if id_col x = i then row' else x) (rows d)"
    by simp_all
  from d' id' show "map id_col (rows d') = map id_col (rows d)"
    by (auto simp: o_def)
  from d' id' show "filter (\<lambda>x. id_col x \<noteq> i) (rows d') = filter (\<lambda>x. id_col x \<noteq> i) (rows d)"
    by (simp add: filter_others)
  show "map title (rows d') = map title (rows d)" if "nt = None"
    using d' title' that only by (auto simp: o_def)
  show "map recipe (rows d') = map recipe (rows d)" if "nr = None"
    using d' recipe' that only by (auto simp: o_def)
qed

lemma update_drink_frame:
  shows "map id_col (rows (snd (update_drink seed payload i (JObj kvs) d))) = map id_col (rows d)"
    and "filter (\<lambda>x. id_col x \<noteq> i) (rows (snd (update_drink seed payload i (JObj kvs) d)))
           = filter (\<lambda>x. id_col x \<noteq> i) (rows d)"
    and "map_of kvs ''title'' = None \<Longrightarrow>
           map title (rows (snd (update_drink seed payload i (JObj kvs) d))) = map title (rows d)"
    and "map_of kvs ''recipe'' = None \<Longrightarrow>
           map recipe (rows (snd (update_drink seed payload i (JObj kvs) d))) = map recipe (rows d)"
proof -
  let ?d' = "snd (update_drink seed payload i (JObj kvs) d)"
  from update_drink_table [of seed payload i "JObj kvs" d]
  consider "?d' = d"
    | row row' where "one_or_none i d = Inr (Some row)"
        "update_row row (map_of kvs ''title'') (map_option json_dumps (map_of kvs ''recipe'')) d
           = Inr (row', ?d')"
    by (auto simp: assigned_object)
  note cases = this
  show "map id_col (rows ?d') = map id_col (rows d)"
    using cases by cases (simp_all add: update_row_frame(1))
  show "filter (\<lambda>x. id_col x \<noteq> i) (rows ?d') = filter (\<lambda>x. id_col x \<noteq> i) (rows d)"
    using cases by cases (simp_all add: update_row_frame(2))
  show "map title (rows ?d') = map title (rows d)" if "map_of kvs ''title'' = None"
    using cases that by cases (simp_all add: update_row_frame(3))
  show "map recipe (rows ?d') = map recipe (rows d)" if "map_of kvs ''recipe'' = None"
    using cases that by cases (simp_all add: update_row_frame(4))
qed

lemma update_overflow:
  assumes "update_checks seed body = Inr ()" and "\<not> sqlite_integer i"
  shows "respond (update_drink seed payload i body d) = (envelope 422 ''unprocessable'', d)"
  using assms
  by (simp add: respond_def update_drink_def update_try_def one_or_none_overflow
        dispatch_abort_422)

lemma checks_recipe_only:
  assumes "map_of kvs ''title'' = None"
      and "map_of kvs ''recipe'' = Some (JObj ing)" and "valid_ingredient ing"
  shows "update_checks seed (JObj kvs) = Inr ()"
  using assms valid_ingredient_nonempty [OF assms(3)]
  unfolding update_checks_def supplied_field_def py_in_object
  by (simp add: long_format_valid)

lemma checks_title_only:
  assumes "map_of kvs ''title'' = Some (JStr t)" and "t \<noteq> []"
      and "map_of kvs ''recipe'' = None"
  shows "update_checks seed (JObj kvs) = Inr ()"
  using assms
  unfolding update_checks_def supplied_field_def py_in_object
  by simp

lemma update_recipe_only:
  assumes "filter (\<lambda>x. id_col x = i) (rows d) = [row]"
      and "map_of kvs ''title'' = None"
      and "map_of kvs ''recipe'' = Some (JObj ing)" and "valid_ingredient ing"
      and "sqlite_integer i"
  shows "respond (update_drink seed payload i (JObj kvs) d) =
           (\<lparr>status = 200,
             content = Json (success_drinks [long (row\<lparr>recipe := json_dumps (JObj ing)\<rparr>)])\<rparr>,
            d\<lparr>rows := map (\<lambda>x. if id_col x = i then row\<lparr>recipe := json_dumps (JObj ing)\<rparr> else x)
                           (rows d)\<rparr>)"
proof -
  from single_id(1) [OF assms(1)] have i: "id_col row = i" .
  from checks_recipe_only [OF assms(2,3,4)]
  have checks: "update_checks seed (JObj kvs) = Inr ()" .
  with assms(2,3) i show ?thesis
    by (simp add: respond_def update_drink_def update_try_def
          one_or_none_single [OF assms(5) assms(1)]
          assigned_object update_row_def Let_def dispatch_returned)
qed

lemma update_title_only:
  assumes "filter (\<lambda>x. id_col x = i) (rows d) = [row]"
      and "map_of kvs ''title'' = Some (JStr t)" and "t \<noteq> []"
      and "t \<notin> set (map title (rows d))"
      and "map_of kvs ''recipe'' = None"
      and "sqlite_integer i"
  shows "respond (update_drink seed payload i (JObj kvs) d) =
           (\<lparr>status = 200,
             content = Json (success_drinks [long (row\<lparr>title := t\<rparr>)])\<rparr>,
            d\<lparr>rows := map (\<lambda>x. if id_col x = i then row\<lparr>title := t\<rparr> else x) (rows d)\<rparr>)"
proof -
  from single_id(1) [OF assms(1)] have i: "id_col row = i" .
  from checks_title_only [OF assms(2,3,5)]
  have checks: "update_checks seed (JObj kvs) = Inr ()" .
  from assms(4) have free: "t \<notin> title ` {x \<in> set (rows d). id_col x \<noteq> i}" by auto
  with checks assms(2,5) i show ?thesis
    by (simp add: respond_def update_drink_def update_try_def
          one_or_none_single [OF assms(6) assms(1)]
          assigned_object update_row_def Let_def dispatch_returned)
qed

lemma update_empty_title:
  assumes "map_of kvs ''title'' = Some (JStr [])"
  shows "respond (update_drink seed payload i (JObj kvs) d)
           = (envelope 400 ''A value is required for field: title'', d)"
proof -
  from assms have "update_checks seed (JObj kvs)
      = Inl (abort 400 (Some (''A value is required for field: '' @ ''title'')))"
    unfolding update_checks_def supplied_field_def py_in_object
    by simp
  then show ?thesis
    by (simp add: respond_def update_drink_def dispatch_abort_400)
qed

text \<open>
  Claim C6. \<^verbatim>\<open>PATCH /drinks/<id>\<close> with a JSON object as body. If the title is omitted the
  titles stored are unchanged, whatever the outcome, and likewise the recipes if the
  recipe is omitted; ids and the rows of other ids are never touched. On the one row
  of the id, a body with only a valid recipe replaces the recipe and keeps the title,
  and a body with only a fresh non-empty title replaces the title and keeps the
  recipe; that is for an id the lookup can bind, and for any other the lookup raises
  inside the \<^verbatim>\<open>try\<close> and the response is the 422 envelope with no change. A supplied
  empty-string title gives the 400 envelope and no change.
\<close>

theorem update_drink_replaces_only_supplied:
  "(map_of kvs ''title'' = None \<longrightarrow>
      map title (rows (snd (update_drink seed payload i (JObj kvs) d))) = map title (rows d))
   \<and> (map_of kvs ''recipe'' = None \<longrightarrow>
      map recipe (rows (snd (update_drink seed payload i (JObj kvs) d))) = map recipe (rows d))
   \<and> map id_col (rows (snd (update_drink seed payload i (JObj kvs) d))) = map id_col (rows d)
   \<and> filter (\<lambda>x. id_col x \<noteq> i) (rows (snd (update_drink seed payload i (JObj kvs) d)))
       = filter (\<lambda>x. id_col x \<noteq> i) (rows d)
   \<and> (filter (\<lambda>x. id_col x = i) (rows d) = [row] \<and> map_of kvs ''title'' = None
        \<and> map_of kvs ''recipe'' = Some (JObj ing) \<and> valid_ingredient ing \<longrightarrow>
      respond (update_drink seed payload i (JObj kvs) d) =
        (if sqlite_integer i then
           (\<lparr>status = 200,
             content = Json (success_drinks [long (row\<lparr>recipe := json_dumps (JObj ing)\<rparr>)])\<rparr>,
            d\<lparr>rows := map (\<lambda>x. if id_col x = i then row\<lparr>recipe := json_dumps (JObj ing)\<rparr> else x)
                           (rows d)\<rparr>)
         else (envelope 422 ''unprocessable'', d)))
   \<and> (filter (\<lambda>x. id_col x = i) (rows d) = [row] \<and> map_of kvs ''title'' = Some (JStr t)
        \<and> t \<noteq> [] \<and> t \<notin> set (map title (rows d)) \<and> map_of kvs ''recipe'' = None \<longrightarrow>
      respond (update_drink seed payload i (JObj kvs) d) =
        (if sqlite_integer i then
           (\<lparr>status = 200, content = Json (success_drinks [long (row\<lparr>title := t\<rparr>)])\<rparr>,
            d\<lparr>rows := map (\<lambda>x. if id_col x = i then row\<lparr>title := t\<rparr> else x) (rows d)\<rparr>)
         else (envelope 422 ''unprocessable'', d)))
   \<and> (map_of kvs ''title'' = Some (JStr []) \<longrightarrow>
      respond (update_drink seed payload i (JObj kvs) d)
        = (envelope 400 ''A value is required for field: title'', d))"
proof -
  note frame = update_drink_frame [where seed = seed and payload = payload and i = i
                                     and kvs = kvs and d = d]
  have recipe_only: "respond (update_drink seed payload i (JObj kvs) d) =
        (if sqlite_integer i then
           (\<lparr>status = 200,
             content = Json (success_drinks [long (row\<lparr>recipe := json_dumps (JObj ing)\<rparr>)])\<rparr>,
            d\<lparr>rows := map (\<lambda>x. if id_col x = i then row\<lparr>recipe := json_dumps (JObj ing)\<rparr> else x)
                           (rows d)\<rparr>)
         else (envelope 422 ''unprocessable'', d))"
    if h: "filter (\<lambda>x. id_col x = i) (rows d) = [row] \<and> map_of kvs ''title'' = None
        \<and> map_of kvs ''recipe'' = Some (JObj ing) \<and> valid_ingredient ing"
  proof (cases "sqlite_integer i")
    case True
    with h update_recipe_only [where seed = seed and payload = payload and i = i and kvs = kvs
                                 and d = d and row = row and ing = ing]
    show ?thesis by simp
  next
    case False
    from h have "update_checks seed (JObj kvs) = Inr ()"
      by (simp add: checks_recipe_only)
    from update_overflow [OF this False] False show ?thesis by simp
  qed
  have title_only: "respond (update_drink seed payload i (JObj kvs) d) =
        (if sqlite_integer i then
           (\<lparr>status = 200, content = Json (success_drinks [long (row\<lparr>title := t\<rparr>)])\<rparr>,
            d\<lparr>rows := map (\<lambda>x. if id_col x = i then row\<lparr>title := t\<rparr> else x) (rows d)\<rparr>)
         else (envelope 422 ''unprocessable'', d))"
    if h: "filter (\<lambda>x. id_col x = i) (rows d) = [row] \<and> map_of kvs ''title'' = Some (JStr t)
        \<and> t \<noteq> [] \<and> t \<notin> set (map title (rows d)) \<and> map_of kvs ''recipe'' = None"
  proof (cases "sqlite_integer i")
    case True
    with h update_title_only [where seed = seed and payload = payload and i = i and kvs = kvs
                                and d = d and row = row and t = t]
    show ?thesis by simp
  next
    case False
    from h have "update_checks seed (JObj kvs) = Inr ()"
      by (simp add: checks_title_only)
    from update_overflow [OF this False] False show ?thesis by simp
  qed
  note empty = update_empty_title [where seed = seed and payload = payload and i = i
                                     and kvs = kvs and d = d]
  from frame recipe_only title_only empty show ?thesis by blast
qed

theorem update_drink_replaces_only_supplied_witness:
  "map_of [(''recipe'', JObj milk)] ''title'' = None
   \<and> map title (rows (snd (update_drink 0 JNull 1 (JObj [(''recipe'', JObj milk)]) latte_table)))
       = map title (rows latte_table)
   \<and> filter (\<lambda>x. id_col x = 1) (rows latte_table)
       = [\<lparr>id_col = 1, title = ''Latte'', recipe = Dumps (JArr [JObj milk])\<rparr>]
   \<and> valid_ingredient milk
   \<and> sqlite_integer 1
   \<and> respond (update_drink 0 JNull 1 (JObj [(''recipe'', JObj milk)]) latte_table) =
       (\<lparr>status = 200,
         content = Json (success_drinks
           [long \<lparr>id_col = 1, title = ''Latte'', recipe = Dumps (JObj milk)\<rparr>])\<rparr>,
        \<lparr>rows = [\<lparr>id_col = 1, title = ''Latte'', recipe = Dumps (JObj milk)\<rparr>], next_id = 2\<rparr>)
   \<and> map_of [(''title'', JStr ''Mocha'')] ''recipe'' = None
   \<and> ''Mocha'' \<notin> set (map title (rows latte_table))
   \<and> respond (update_drink 0 JNull 1 (JObj [(''title'', JStr ''Mocha'')]) latte_table) =
       (\<lparr>status = 200,
         content = Json (success_drinks
           [long \<lparr>id_col = 1, title = ''Mocha'', recipe = Dumps (JArr [JObj milk])\<rparr>])\<rparr>,
        \<lparr>rows = [\<lparr>id_col = 1, title = ''Mocha'', recipe = Dumps (JArr [JObj milk])\<rparr>],
          next_id = 2\<rparr>)
   \<and> respond (update_drink 0 JNull 1 (JObj [(''title'', JStr [])]) latte_table)
       = (envelope 400 ''A value is required for field: title'', latte_table)"
proof -
  let ?latte = "\<lparr>id_col = 1, title = ''Latte'', recipe = Dumps (JArr [JObj milk])\<rparr>"
  have single: "filter (\<lambda>x. id_col x = 1) (rows latte_table) = [?latte]"
    by (simp add: latte_table_def)
  have free: "''Mocha'' \<notin> set (map title (rows latte_table))"
    by (simp add: latte_table_def)
  have range: "sqlite_integer 1"
    by (simp add: sqlite_integer_def)
  have r1: "latte_table\<lparr>rows := map (\<lambda>x. if id_col x = 1
                                           then ?latte\<lparr>recipe := json_dumps (JObj milk)\<rparr> else x)
                                    (rows latte_table)\<rparr>
            = \<lparr>rows = [\<lparr>id_col = 1, title = ''Latte'', recipe = Dumps (JObj milk)\<rparr>],
               next_id = 2\<rparr>"
    by (simp add: latte_table_def json_dumps_def)
  have r2: "latte_table\<lparr>rows := map (\<lambda>x. if id_col x = 1 then ?latte\<lparr>title := ''Mocha''\<rparr> else x)
                                    (rows latte_table)\<rparr>
            = \<lparr>rows = [\<lparr>id_col = 1, title = ''Mocha'', recipe = Dumps (JArr [JObj milk])\<rparr>],
               next_id = 2\<rparr>"
    by (simp add: latte_table_def)
  from update_drink_replaces_only_supplied
         [where kvs = "[(''recipe'', JObj milk)]" and seed = 0 and payload = JNull and i = 1
            and d = latte_table and row = ?latte and ing = milk]
       single valid_milk range
  have a: "map title (rows (snd (update_drink 0 JNull 1 (JObj [(''recipe'', JObj milk)]) latte_table)))
             = map title (rows latte_table)"
    and b: "respond (update_drink 0 JNull 1 (JObj [(''recipe'', JObj milk)]) latte_table) =
       (\<lparr>status = 200,
         content = Json (success_drinks [long (?latte\<lparr>recipe := json_dumps (JObj milk)\<rparr>)])\<rparr>,
        latte_table\<lparr>rows := map (\<lambda>x. if id_col x = 1
                                       then ?latte\<lparr>recipe := json_dumps (JObj milk)\<rparr> else x)
                                (rows latte_table)\<rparr>)"
    by simp_all
  from update_drink_replaces_only_supplied
         [where kvs = "[(''title'', JStr ''Mocha'')]" and seed = 0 and payload = JNull and i = 1
            and d = latte_table and row = ?latte and t = "''Mocha''"]
       single free range
  have c: "respond (update_drink 0 JNull 1 (JObj [(''title'', JStr ''Mocha'')]) latte_table) =
        (\<lparr>status = 200, content = Json (success_drinks [long (?latte\<lparr>title := ''Mocha''\<rparr>)])\<rparr>,
         latte_table\<lparr>rows := map (\<lambda>x. if id_col x = 1 then ?latte\<lparr>title := ''Mocha''\<rparr> else x)
                                 (rows latte_table)\<rparr>)"
    by simp
  from update_drink_replaces_only_supplied
         [where kvs = "[(''title'', JStr [])]" and seed = 0 and payload = JNull and i = 1
            and d = latte_table]
  have e: "respond (update_drink 0 JNull 1 (JObj [(''title'', JStr [])]) latte_table)
       = (envelope 400 ''A value is required for field: title'', latte_table)"
    by simp
  from a b c e single valid_milk free range show ?thesis
    unfolding r1 r2 by (simp add: json_dumps_def)
qed

section \<open>Falsy values in a body\<close>

lemma create_title_rejected:
  assumes "map_of kvs ''title'' = None \<or> (map_of kvs ''title'' = Some v \<and> \<not> truthy v)"
  shows "respond (create_drink seed payload (JObj kvs) d)
           = (envelope 400 ''Missing required field: title'', d)"
proof -
  from assms have "required_field (JObj kvs) ''title''
      = Inl (abort 400 (Some (''Missing required field: '' @ ''title'')))"
    by (auto simp: required_field_def)
  then show ?thesis
    by (simp add: respond_def create_drink_def dispatch_abort_400)
qed

lemma create_recipe_rejected:
  assumes "map_of kvs ''title'' = Some tv" and "truthy tv"
      and "map_of kvs ''recipe'' = None \<or> (map_of kvs ''recipe'' = Some v \<and> \<not> truthy v)"
  shows "respond (create_drink seed payload (JObj kvs) d)
           = (envelope 400 ''Missing required field: recipe'', d)"
proof -
  from assms(1,2) have "required_field (JObj kvs) ''title'' = Inr tv"
    by (simp add: required_field_def)
  moreover from assms(3) have "required_field (JObj kvs) ''recipe''
      = Inl (abort 400 (Some (''Missing required field: '' @ ''recipe'')))"
    by (auto simp: required_field_def)
  ultimately show ?thesis
    by (simp add: respond_def create_drink_def dispatch_abort_400)
qed

lemma supplied_field_object:
  "supplied_field (JObj kvs) field =
     (case map_of kvs field of
        None \<Rightarrow> Inr ()
      | Some v \<Rightarrow>
          if truthy v then Inr ()
          else Inl (abort 400 (Some (''A value is required for field: '' @ field))))"
  unfolding supplied_field_def py_in_object
  by (cases "map_of kvs field") simp_all

lemma update_title_rejected:
  assumes "map_of kvs ''title'' = Some v" and "\<not> truthy v"
  shows "respond (update_drink seed payload i (JObj kvs) d)
           = (envelope 400 ''A value is required for field: title'', d)"
proof -
  from assms have "update_checks seed (JObj kvs)
      = Inl (abort 400 (Some (''A value is required for field: '' @ ''title'')))"
    unfolding update_checks_def supplied_field_object by simp
  then show ?thesis
    by (simp add: respond_def update_drink_def dispatch_abort_400)
qed

lemma update_recipe_rejected:
  assumes "case map_of kvs ''title'' of None \<Rightarrow> True | Some tv \<Rightarrow> truthy tv"
      and "map_of kvs ''recipe'' = Some v" and "\<not> truthy v"
  shows "respond (update_drink seed payload i (JObj kvs) d)
           = (envelope 400 ''A value is required for field: recipe'', d)"
proof -
  from assms(1) have "supplied_field (JObj kvs) ''title'' = Inr ()"
    unfolding supplied_field_object by (auto split: option.splits)
  moreover from assms(2,3) have "supplied_field (JObj kvs) ''recipe''
      = Inl (abort 400 (Some (''A value is required for field: '' @ ''recipe'')))"
    unfolding supplied_field_object by simp
  ultimately have "update_checks seed (JObj kvs)
      = Inl (abort 400 (Some (''A value is required for field: '' @ ''recipe'')))"
    unfolding update_checks_def by simp
  then show ?thesis
    by (simp add: respond_def update_drink_def dispatch_abort_400)
qed

lemma find_nonempty: "find P xs = Some x \<Longrightarrow> xs \<noteq> []"
  by auto

lemma long_format_falsy_value:
  assumes "has_fields ing" and "find (\<lambda>kv. \<not> truthy (snd kv)) ing = Some (k, v)"
  shows "long_format seed (JObj ing)
           = Inl (abort 400 (Some (''Missing required recipe field: '' @ k)))"
  using assms
  by (simp add: long_format_def difference_object has_fields_def recipe_values_first_falsy)

lemma long_format_missing_field:
  assumes "\<not> has_fields ing"
  shows "long_format seed (JObj ing)
           = Inl (abort 400 (Some (''Missing required recipe field(s): '' @
                 join_comma (set_order seed
                   (filter (\<lambda>f. f \<notin> set (map fst ing)) [''name'', ''color'', ''parts''])))))"
proof -
  from assms have "filter (\<lambda>f. f \<notin> set (map fst ing)) [''name'', ''color'', ''parts''] \<noteq> []"
    unfolding has_fields_def by (simp add: filter_empty_conv list_all_iff)
  then have "set_order seed
               (filter (\<lambda>f. f \<notin> set (map fst ing)) [''name'', ''color'', ''parts'']) \<noteq> []"
    by (simp add: set_order_Nil)
  then show ?thesis
    unfolding long_format_def difference_object by simp
qed

lemma create_long_format_rejected:
  assumes "map_of kvs ''title'' = Some tv" and "truthy tv"
      and "map_of kvs ''recipe'' = Some (JObj ing)" and "ing \<noteq> []"
      and "long_format seed (JObj ing) = Inl (abort 400 (Some m))" and "m \<noteq> []"
  shows "respond (create_drink seed payload (JObj kvs) d) = (envelope 400 m, d)"
  using assms
  by (simp add: respond_def create_drink_def required_field_def dispatch_abort_400)

lemma update_long_format_rejected:
  assumes "case map_of kvs ''title'' of None \<Rightarrow> True | Some tv \<Rightarrow> truthy tv"
      and "map_of kvs ''recipe'' = Some (JObj ing)" and "ing \<noteq> []"
      and "long_format seed (JObj ing) = Inl (abort 400 (Some m))" and "m \<noteq> []"
  shows "respond (update_drink seed payload i (JObj kvs) d) = (envelope 400 m, d)"
proof -
  from assms(1) have "supplied_field (JObj kvs) ''title'' = Inr ()"
    unfolding supplied_field_object by (auto split: option.splits)
  moreover from assms(2,3) have "supplied_field (JObj kvs) ''recipe'' = Inr ()"
    unfolding supplied_field_object by simp
  moreover from assms(2) have "py_in ''recipe'' (JObj kvs) = Inr True"
    unfolding py_in_object by simp
  ultimately have "update_checks seed (JObj kvs) = Inl (abort 400 (Some m))"
    unfolding update_checks_def using assms(2,4) by simp
  with assms(5) show ?thesis
    by (simp add: respond_def update_drink_def dispatch_abort_400)
qed

lemma update_nothing:
  assumes "filter (\<lambda>x. id_col x = i) (rows d) = [row]" and "sqlite_integer i"
      and "map_of kvs ''title'' = None" and "map_of kvs ''recipe'' = None"
  shows "respond (update_drink seed payload i (JObj kvs) d)
           = (\<lparr>status = 200, content = Json (success_drinks [long row])\<rparr>, d)"
proof -
  from single_id(1) [OF assms(1)] have i: "id_col row = i" .
  from single_id(2) [OF assms(1)] have "map (\<lambda>x. if id_col x = i then row else x) (rows d) = rows d"
    by (auto intro: map_idI)
  then have same: "d\<lparr>rows := map (\<lambda>x. if id_col x = i then row else x) (rows d)\<rparr> = d"
    by simp
  from assms(3,4) have checks: "update_checks seed (JObj kvs) = Inr ()"
    unfolding update_checks_def supplied_field_def py_in_object by simp
  with assms(3,4) i same show ?thesis
    by (simp add: respond_def update_drink_def update_try_def
          one_or_none_single [OF assms(2) assms(1)]
          assigned_object update_row_def Let_def dispatch_returned)
qed

lemma water_fields: "has_fields water"
  by (simp add: has_fields_def water_def)

lemma water_first_falsy: "find (\<lambda>kv. \<not> truthy (snd kv)) water = Some (''parts'', JInt 0)"
  by (simp add: water_def)

lemma syrup_fields: "\<not> has_fields syrup"
  by (simp add: has_fields_def syrup_def)

lemma syrup_missing:
  "join_comma (set_order seed
     (filter (\<lambda>f. f \<notin> set (map fst syrup)) [''name'', ''color'', ''parts''])) = ''parts''"
  by (simp add: syrup_def)

lemma sugar_fields: "\<not> has_fields sugar"
  by (simp add: has_fields_def sugar_def)

lemma sugar_nonempty: "sugar \<noteq> []"
  by (simp add: sugar_def)

lemma sugar_missing:
  "join_comma (set_order 0
     (filter (\<lambda>f. f \<notin> set (map fst sugar)) [''name'', ''color'', ''parts''])) = ''color, parts''"
  "join_comma (set_order 1
     (filter (\<lambda>f. f \<notin> set (map fst sugar)) [''name'', ''color'', ''parts''])) = ''parts, color''"
  by (simp_all add: sugar_def)

lemma syrup_nonempty: "syrup \<noteq> []"
  by (simp add: syrup_def)

text \<open>
  Claim C4, as stated: a supplied field whose value is falsy is rejected exactly as if
  it were missing, for update as for create. On the table holding the drink of id 1,
  \<^verbatim>\<open>PATCH /drinks/1\<close> with \<^verbatim>\<open>{"title": ""}\<close> is rejected with the 400 envelope, while the
  same request with the title missing, \<^verbatim>\<open>{}\<close>, is accepted with 200: for update a
  falsy title is not treated as a missing one.
\<close>

theorem update_falsy_title_counterexample:
  "respond (update_drink 0 JNull 1 (JObj [(''title'', JStr [])]) latte_table)
     = (envelope 400 ''A value is required for field: title'', latte_table)
   \<and> respond (update_drink 0 JNull 1 (JObj []) latte_table)
     = (\<lparr>status = 200,
          content = Json (JObj [(''success'', JBool True),
                                (''drinks'', JArr [JObj [(''id'', JInt 1),
                                                         (''title'', JStr ''Latte''),
                                                         (''recipe'', JArr [JObj milk])]])])\<rparr>,
        latte_table)
   \<and> respond (update_drink 0 JNull 1 (JObj [(''title'', JStr [])]) latte_table)
     \<noteq> respond (update_drink 0 JNull 1 (JObj []) latte_table)"
proof -
  have falsy: "respond (update_drink 0 JNull 1 (JObj [(''title'', JStr [])]) latte_table)
     = (envelope 400 ''A value is required for field: title'', latte_table)"
    using update_title_rejected [where kvs = "[(''title'', JStr [])]" and v = "JStr []"]
    by simp
  have missing: "respond (update_drink 0 JNull 1 (JObj []) latte_table)
     = (\<lparr>status = 200,
          content = Json (JObj [(''success'', JBool True),
                                (''drinks'', JArr [JObj [(''id'', JInt 1),
                                                         (''title'', JStr ''Latte''),
                                                         (''recipe'', JArr [JObj milk])]])])\<rparr>,
        latte_table)"
    by (simp add: respond_def update_drink_def update_checks_def supplied_field_def
          update_try_def one_or_none_def sqlite_integer_def latte_table_def assigned_def
          update_row_def Let_def dispatch_returned success_drinks_def long_def)
  show ?thesis
    unfolding falsy missing by (simp add: envelope_def)
qed

text \<open>
  Claim C4, amended. For create, a title that is missing or falsy gets one and the
  same response, the 400 envelope naming \<^verbatim>\<open>title\<close>, and with a truthy title so does a
  recipe that is missing or falsy, naming \<^verbatim>\<open>recipe\<close>. For update, a supplied title
  whose value is falsy gets the 400 envelope naming \<^verbatim>\<open>title\<close>, and with the title
  omitted or truthy a supplied falsy recipe the one naming \<^verbatim>\<open>recipe\<close>; an omitted
  title or recipe is accepted: on the one row of an id the lookup can bind, a body
  with neither is answered 200 with the row as it is, a body with only a valid recipe
  and one with only a fresh non-empty title 200 with the row updated. For both, with
  the fields before it in order, a recipe object that has name, color and parts is
  rejected with the 400 envelope naming the first field whose value is falsy (so
  parts equal to 0 is rejected), and a non-empty recipe object that lacks one of the
  three with the 400 envelope listing the ones it lacks, in the order in which the
  set of them iterates.
\<close>

theorem falsy_values_rejected:
  "(map_of kvs ''title'' = None \<or> (map_of kvs ''title'' = Some v \<and> \<not> truthy v) \<longrightarrow>
      respond (create_drink seed payload (JObj kvs) d)
        = (envelope 400 ''Missing required field: title'', d))
   \<and> (map_of kvs ''title'' = Some tv \<and> truthy tv
        \<and> (map_of kvs ''recipe'' = None \<or> (map_of kvs ''recipe'' = Some v \<and> \<not> truthy v)) \<longrightarrow>
      respond (create_drink seed payload (JObj kvs) d)
        = (envelope 400 ''Missing required field: recipe'', d))
   \<and> (map_of kvs ''title'' = Some v \<and> \<not> truthy v \<longrightarrow>
      respond (update_drink seed payload i (JObj kvs) d)
        = (envelope 400 ''A value is required for field: title'', d))
   \<and> ((case map_of kvs ''title'' of None \<Rightarrow> True | Some x \<Rightarrow> truthy x)
        \<and> map_of kvs ''recipe'' = Some v \<and> \<not> truthy v \<longrightarrow>
      respond (update_drink seed payload i (JObj kvs) d)
        = (envelope 400 ''A value is required for field: recipe'', d))
   \<and> (map_of kvs ''title'' = Some tv \<and> truthy tv \<and> map_of kvs ''recipe'' = Some (JObj ing)
        \<and> has_fields ing \<and> find (\<lambda>kv. \<not> truthy (snd kv)) ing = Some (k, v) \<longrightarrow>
      respond (create_drink seed payload (JObj kvs) d)
        = (envelope 400 (''Missing required recipe field: '' @ k), d))
   \<and> ((case map_of kvs ''title'' of None \<Rightarrow> True | Some x \<Rightarrow> truthy x)
        \<and> map_of kvs ''recipe'' = Some (JObj ing)
        \<and> has_fields ing \<and> find (\<lambda>kv. \<not> truthy (snd kv)) ing = Some (k, v) \<longrightarrow>
      respond (update_drink seed payload i (JObj kvs) d)
        = (envelope 400 (''Missing required recipe field: '' @ k), d))
   \<and> (map_of kvs ''title'' = Some tv \<and> truthy tv \<and> map_of kvs ''recipe'' = Some (JObj ing)
        \<and> ing \<noteq> [] \<and> \<not> has_fields ing \<longrightarrow>
      respond (create_drink seed payload (JObj kvs) d)
        = (envelope 400 (''Missing required recipe field(s): '' @
             join_comma (set_order seed
               (filter (\<lambda>f. f \<notin> set (map fst ing)) [''name'', ''color'', ''parts'']))), d))
   \<and> ((case map_of kvs ''title'' of None \<Rightarrow> True | Some x \<Rightarrow> truthy x)
        \<and> map_of kvs ''recipe'' = Some (JObj ing) \<and> ing \<noteq> [] \<and> \<not> has_fields ing \<longrightarrow>
      respond (update_drink seed payload i (JObj kvs) d)
        = (envelope 400 (''Missing required recipe field(s): '' @
             join_comma (set_order seed
               (filter (\<lambda>f. f \<notin> set (map fst ing)) [''name'', ''color'', ''parts'']))), d))
   \<and> (filter (\<lambda>x. id_col x = i) (rows d) = [row] \<and> sqlite_integer i
        \<and> map_of kvs ''title'' = None \<and> map_of kvs ''recipe'' = None \<longrightarrow>
      respond (update_drink seed payload i (JObj kvs) d)
        = (\<lparr>status = 200, content = Json (success_drinks [long row])\<rparr>, d))
   \<and> (filter (\<lambda>x. id_col x = i) (rows d) = [row] \<and> sqlite_integer i
        \<and> map_of kvs ''title'' = None
        \<and> map_of kvs ''recipe'' = Some (JObj ing) \<and> valid_ingredient ing \<longrightarrow>
      respond (update_drink seed payload i (JObj kvs) d) =
        (\<lparr>status = 200,
          content = Json (success_drinks [long (row\<lparr>recipe := json_dumps (JObj ing)\<rparr>)])\<rparr>,
         d\<lparr>rows := map (\<lambda>x. if id_col x = i then row\<lparr>recipe := json_dumps (JObj ing)\<rparr> else x)
                        (rows d)\<rparr>))
   \<and> (filter (\<lambda>x. id_col x = i) (rows d) = [row] \<and> sqlite_integer i
        \<and> map_of kvs ''title'' = Some (JStr t) \<and> t \<noteq> [] \<and> t \<notin> set (map title (rows d))
        \<and> map_of kvs ''recipe'' = None \<longrightarrow>
      respond (update_drink seed payload i (JObj kvs) d) =
        (\<lparr>status = 200, content = Json (success_drinks [long (row\<lparr>title := t\<rparr>)])\<rparr>,
         d\<lparr>rows := map (\<lambda>x. if id_col x = i then row\<lparr>title := t\<rparr> else x) (rows d)\<rparr>))"
proof -
  have m1: "''Missing required recipe field: '' @ k \<noteq> []" by simp
  have m2: "''Missing required recipe field(s): '' @
             join_comma (set_order seed
               (filter (\<lambda>f. f \<notin> set (map fst ing)) [''name'', ''color'', ''parts''])) \<noteq> []"
    by simp
  note falsy = long_format_falsy_value [where seed = seed and ing = ing and k = k and v = v]
  note missing = long_format_missing_field [where seed = seed and ing = ing]
  have c1: "respond (create_drink seed payload (JObj kvs) d)
        = (envelope 400 ''Missing required field: title'', d)"
    if "map_of kvs ''title'' = None \<or> (map_of kvs ''title'' = Some v \<and> \<not> truthy v)"
    using that by (rule create_title_rejected)
  have c2: "respond (create_drink seed payload (JObj kvs) d)
        = (envelope 400 ''Missing required field: recipe'', d)"
    if "map_of kvs ''title'' = Some tv \<and> truthy tv
        \<and> (map_of kvs ''recipe'' = None \<or> (map_of kvs ''recipe'' = Some v \<and> \<not> truthy v))"
    using that create_recipe_rejected [where kvs = kvs and tv = tv and v = v] by blast
  have u1: "respond (update_drink seed payload i (JObj kvs) d)
        = (envelope 400 ''A value is required for field: title'', d)"
    if "map_of kvs ''title'' = Some v \<and> \<not> truthy v"
    using that update_title_rejected [where kvs = kvs and v = v] by blast
  have u2: "respond (update_drink seed payload i (JObj kvs) d)
        = (envelope 400 ''A value is required for field: recipe'', d)"
    if "(case map_of kvs ''title'' of None \<Rightarrow> True | Some x \<Rightarrow> truthy x)
        \<and> map_of kvs ''recipe'' = Some v \<and> \<not> truthy v"
    using that update_recipe_rejected [where kvs = kvs and v = v] by blast
  have c3: "respond (create_drink seed payload (JObj kvs) d)
        = (envelope 400 (''Missing required recipe field: '' @ k), d)"
    if h: "map_of kvs ''title'' = Some tv \<and> truthy tv \<and> map_of kvs ''recipe'' = Some (JObj ing)
        \<and> has_fields ing \<and> find (\<lambda>kv. \<not> truthy (snd kv)) ing = Some (k, v)"
  proof -
    from h have "ing \<noteq> []" by (auto dest: find_nonempty)
    with h falsy m1 show ?thesis
      using create_long_format_rejected [where kvs = kvs and tv = tv and ing = ing] by blast
  qed
  have u3: "respond (update_drink seed payload i (JObj kvs) d)
        = (envelope 400 (''Missing required recipe field: '' @ k), d)"
    if h: "(case map_of kvs ''title'' of None \<Rightarrow> True | Some x \<Rightarrow> truthy x)
        \<and> map_of kvs ''recipe'' = Some (JObj ing)
        \<and> has_fields ing \<and> find (\<lambda>kv. \<not> truthy (snd kv)) ing = Some (k, v)"
  proof -
    from h have "ing \<noteq> []" by (auto dest: find_nonempty)
    with h falsy m1 show ?thesis
      using update_long_format_rejected [where kvs = kvs and ing = ing] by blast
  qed
  have c4: "respond (create_drink seed payload (JObj kvs) d)
        = (envelope 400 (''Missing required recipe field(s): '' @
             join_comma (set_order seed
               (filter (\<lambda>f. f \<notin> set (map fst ing)) [''name'', ''color'', ''parts'']))), d)"
    if h: "map_of kvs ''title'' = Some tv \<and> truthy tv \<and> map_of kvs ''recipe'' = Some (JObj ing)
        \<and> ing \<noteq> [] \<and> \<not> has_fields ing"
    using h missing m2 create_long_format_rejected [where kvs = kvs and tv = tv and ing = ing]
    by blast
  have u4: "respond (update_drink seed payload i (JObj kvs) d)
        = (envelope 400 (''Missing required recipe field(s): '' @
             join_comma (set_order seed
               (filter (\<lambda>f. f \<notin> set (map fst ing)) [''name'', ''color'', ''parts'']))), d)"
    if h: "(case map_of kvs ''title'' of None \<Rightarrow> True | Some x \<Rightarrow> truthy x)
        \<and> map_of kvs ''recipe'' = Some (JObj ing) \<and> ing \<noteq> [] \<and> \<not> has_fields ing"
    using h missing m2 update_long_format_rejected [where kvs = kvs and ing = ing]
    by blast
  have o1: "respond (update_drink seed payload i (JObj kvs) d)
        = (\<lparr>status = 200, content = Json (success_drinks [long row])\<rparr>, d)"
    if "filter (\<lambda>x. id_col x = i) (rows d) = [row] \<and> sqlite_integer i
        \<and> map_of kvs ''title'' = None \<and> map_of kvs ''recipe'' = None"
    using that update_nothing [where seed = seed and payload = payload and i = i and kvs = kvs
                                 and d = d and row = row]
    by blast
  have o2: "respond (update_drink seed payload i (JObj kvs) d) =
        (\<lparr>status = 200,
          content = Json (success_drinks [long (row\<lparr>recipe := json_dumps (JObj ing)\<rparr>)])\<rparr>,
         d\<lparr>rows := map (\<lambda>x. if id_col x = i then row\<lparr>recipe := json_dumps (JObj ing)\<rparr> else x)
                        (rows d)\<rparr>)"
    if "filter (\<lambda>x. id_col x = i) (rows d) = [row] \<and> sqlite_integer i
        \<and> map_of kvs ''title'' = None
        \<and> map_of kvs ''recipe'' = Some (JObj ing) \<and> valid_ingredient ing"
    using that update_recipe_only [where seed = seed and payload = payload and i = i
                                     and kvs = kvs and d = d and row = row and ing = ing]
    by blast
  have o3: "respond (update_drink seed payload i (JObj kvs) d) =
        (\<lparr>status = 200, content = Json (success_drinks [long (row\<lparr>title := t\<rparr>)])\<rparr>,
         d\<lparr>rows := map (\<lambda>x. if id_col x = i then row\<lparr>title := t\<rparr> else x) (rows d)\<rparr>)"
    if "filter (\<lambda>x. id_col x = i) (rows d) = [row] \<and> sqlite_integer i
        \<and> map_of kvs ''title'' = Some (JStr t) \<and> t \<noteq> [] \<and> t \<notin> set (map title (rows d))
        \<and> map_of kvs ''recipe'' = None"
    using that update_title_only [where seed = seed and payload = payload and i = i
                                    and kvs = kvs and d = d and row = row and t = t]
    by blast
  from c1 c2 u1 u2 c3 u3 c4 u4 o1 o2 o3 show ?thesis by blast
qed

theorem falsy_values_rejected_witness:
  "respond (create_drink 0 JNull (JObj [(''title'', JStr []), (''recipe'', JObj milk)]) empty_table)
     = (envelope 400 ''Missing required field: title'', empty_table)
   \<and> respond (create_drink 0 JNull (JObj [(''recipe'', JObj milk)]) empty_table)
     = (envelope 400 ''Missing required field: title'', empty_table)
   \<and> respond (create_drink 0 JNull (JObj [(''title'', JStr ''Latte''), (''recipe'', JArr [])])
        empty_table)
     = (envelope 400 ''Missing required field: recipe'', empty_table)
   \<and> respond (update_drink 0 JNull 1 (JObj [(''title'', JInt 0)]) latte_table)
     = (envelope 400 ''A value is required for field: title'', latte_table)
   \<and> respond (update_drink 0 JNull 1 (JObj [(''recipe'', JNull)]) latte_table)
     = (envelope 400 ''A value is required for field: recipe'', latte_table)
   \<and> has_fields water
   \<and> find (\<lambda>kv. \<not> truthy (snd kv)) water = Some (''parts'', JInt 0)
   \<and> respond (create_drink 0 JNull (JObj [(''title'', JStr ''Tea''), (''recipe'', JObj water)])
        empty_table)
     = (envelope 400 ''Missing required recipe field: parts'', empty_table)
   \<and> respond (update_drink 0 JNull 1 (JObj [(''recipe'', JObj water)]) latte_table)
     = (envelope 400 ''Missing required recipe field: parts'', latte_table)
   \<and> \<not> has_fields syrup
   \<and> respond (update_drink 0 JNull 1 (JObj [(''recipe'', JObj syrup)]) latte_table)
     = (envelope 400 ''Missing required recipe field(s): parts'', latte_table)
   \<and> \<not> has_fields sugar
   \<and> respond (create_drink 0 JNull (JObj [(''title'', JStr ''Tea''), (''recipe'', JObj sugar)])
        empty_table)
     = (envelope 400 ''Missing required recipe field(s): color, parts'', empty_table)
   \<and> respond (create_drink 1 JNull (JObj [(''title'', JStr ''Tea''), (''recipe'', JObj sugar)])
        empty_table)
     = (envelope 400 ''Missing required recipe field(s): parts, color'', empty_table)
   \<and> sqlite_integer 1
   \<and> filter (\<lambda>x. id_col x = 1) (rows latte_table)
       = [\<lparr>id_col = 1, title = ''Latte'', recipe = Dumps (JArr [JObj milk])\<rparr>]
   \<and> respond (update_drink 0 JNull 1 (JObj []) latte_table)
     = (\<lparr>status = 200,
         content = Json (success_drinks
           [long \<lparr>id_col = 1, title = ''Latte'', recipe = Dumps (JArr [JObj milk])\<rparr>])\<rparr>,
        latte_table)
   \<and> valid_ingredient milk
   \<and> respond (update_drink 0 JNull 1 (JObj [(''recipe'', JObj milk)]) latte_table)
     = (\<lparr>status = 200,
         content = Json (success_drinks
           [long \<lparr>id_col = 1, title = ''Latte'', recipe = Dumps (JObj milk)\<rparr>])\<rparr>,
        \<lparr>rows = [\<lparr>id_col = 1, title = ''Latte'', recipe = Dumps (JObj milk)\<rparr>], next_id = 2\<rparr>)
   \<and> ''Mocha'' \<notin> set (map title (rows latte_table))
   \<and> respond (update_drink 0 JNull 1 (JObj [(''title'', JStr ''Mocha'')]) latte_table)
     = (\<lparr>status = 200,
         content = Json (success_drinks
           [long \<lparr>id_col = 1, title = ''Mocha'', recipe = Dumps (JArr [JObj milk])\<rparr>])\<rparr>,
        \<lparr>rows = [\<lparr>id_col = 1, title = ''Mocha'', recipe = Dumps (JArr [JObj milk])\<rparr>],
          next_id = 2\<rparr>)"
proof -
  let ?latte = "\<lparr>id_col = 1, title = ''Latte'', recipe = Dumps (JArr [JObj milk])\<rparr>"
  have a: "respond (create_drink 0 JNull (JObj [(''title'', JStr []), (''recipe'', JObj milk)])
             empty_table)
     = (envelope 400 ''Missing required field: title'', empty_table)"
    using falsy_values_rejected
            [where kvs = "[(''title'', JStr []), (''recipe'', JObj milk)]" and v = "JStr []"
               and seed = 0 and payload = JNull and d = empty_table]
    by simp
  have b: "respond (create_drink 0 JNull (JObj [(''recipe'', JObj milk)]) empty_table)
     = (envelope 400 ''Missing required field: title'', empty_table)"
    using falsy_values_rejected
            [where kvs = "[(''recipe'', JObj milk)]" and seed = 0 and payload = JNull
               and d = empty_table]
    by simp
  have c: "respond (create_drink 0 JNull (JObj [(''title'', JStr ''Latte''), (''recipe'', JArr [])])
             empty_table)
     = (envelope 400 ''Missing required field: recipe'', empty_table)"
    using falsy_values_rejected
            [where kvs = "[(''title'', JStr ''Latte''), (''recipe'', JArr [])]"
               and tv = "JStr ''Latte''" and v = "JArr []" and seed = 0 and payload = JNull
               and d = empty_table]
    by simp
  have d: "respond (update_drink 0 JNull 1 (JObj [(''title'', JInt 0)]) latte_table)
     = (envelope 400 ''A value is required for field: title'', latte_table)"
    using falsy_values_rejected
            [where kvs = "[(''title'', JInt 0)]" and v = "JInt 0" and seed = 0 and payload = JNull
               and i = 1 and d = latte_table]
    by simp
  have e: "respond (update_drink 0 JNull 1 (JObj [(''recipe'', JNull)]) latte_table)
     = (envelope 400 ''A value is required for field: recipe'', latte_table)"
    using falsy_values_rejected
            [where kvs = "[(''recipe'', JNull)]" and v = JNull and seed = 0 and payload = JNull
               and i = 1 and d = latte_table]
    by simp
  have f: "respond (create_drink 0 JNull (JObj [(''title'', JStr ''Tea''), (''recipe'', JObj water)])
             empty_table)
     = (envelope 400 ''Missing required recipe field: parts'', empty_table)"
    using falsy_values_rejected
            [where kvs = "[(''title'', JStr ''Tea''), (''recipe'', JObj water)]"
               and tv = "JStr ''Tea''" and ing = water and k = "''parts''" and v = "JInt 0"
               and seed = 0 and payload = JNull and d = empty_table]
          water_fields water_first_falsy
    by simp
  have g: "respond (update_drink 0 JNull 1 (JObj [(''recipe'', JObj water)]) latte_table)
     = (envelope 400 ''Missing required recipe field: parts'', latte_table)"
    using falsy_values_rejected
            [where kvs = "[(''recipe'', JObj water)]" and ing = water and k = "''parts''"
               and v = "JInt 0" and seed = 0 and payload = JNull and i = 1 and d = latte_table]
          water_fields water_first_falsy
    by simp
  have jp: "(case map_of [(''recipe'', JObj syrup)] ''title'' of None \<Rightarrow> True | Some x \<Rightarrow> truthy x)
             \<and> map_of [(''recipe'', JObj syrup)] ''recipe'' = Some (JObj syrup)
             \<and> syrup \<noteq> [] \<and> \<not> has_fields syrup"
    using syrup_fields syrup_nonempty by simp
  from falsy_values_rejected
         [where kvs = "[(''recipe'', JObj syrup)]" and ing = syrup and seed = 0 and payload = JNull
            and i = 1 and d = latte_table]
       jp
  have "respond (update_drink 0 JNull 1 (JObj [(''recipe'', JObj syrup)]) latte_table)
     = (envelope 400 (''Missing required recipe field(s): '' @
          join_comma (set_order 0
            (filter (\<lambda>f. f \<notin> set (map fst syrup)) [''name'', ''color'', ''parts'']))),
        latte_table)"
    by blast
  then have j: "respond (update_drink 0 JNull 1 (JObj [(''recipe'', JObj syrup)]) latte_table)
     = (envelope 400 ''Missing required recipe field(s): parts'', latte_table)"
    unfolding syrup_missing by simp
  have sp: "map_of [(''title'', JStr ''Tea''), (''recipe'', JObj sugar)] ''title''
               = Some (JStr ''Tea'') \<and> truthy (JStr ''Tea'')
             \<and> map_of [(''title'', JStr ''Tea''), (''recipe'', JObj sugar)] ''recipe''
               = Some (JObj sugar) \<and> sugar \<noteq> [] \<and> \<not> has_fields sugar"
    using sugar_fields sugar_nonempty by simp
  from falsy_values_rejected
         [where kvs = "[(''title'', JStr ''Tea''), (''recipe'', JObj sugar)]"
            and tv = "JStr ''Tea''" and ing = sugar and seed = 0 and payload = JNull
            and d = empty_table]
       sp
  have "respond (create_drink 0 JNull (JObj [(''title'', JStr ''Tea''), (''recipe'', JObj sugar)])
          empty_table)
     = (envelope 400 (''Missing required recipe field(s): '' @
          join_comma (set_order 0
            (filter (\<lambda>f. f \<notin> set (map fst sugar)) [''name'', ''color'', ''parts'']))),
        empty_table)"
    by blast
  then have s0: "respond (create_drink 0 JNull
                   (JObj [(''title'', JStr ''Tea''), (''recipe'', JObj sugar)]) empty_table)
     = (envelope 400 ''Missing required recipe field(s): color, parts'', empty_table)"
    unfolding sugar_missing by simp
  from falsy_values_rejected
         [where kvs = "[(''title'', JStr ''Tea''), (''recipe'', JObj sugar)]"
            and tv = "JStr ''Tea''" and ing = sugar and seed = 1 and payload = JNull
            and d = empty_table]
       sp
  have "respond (create_drink 1 JNull (JObj [(''title'', JStr ''Tea''), (''recipe'', JObj sugar)])
          empty_table)
     = (envelope 400 (''Missing required recipe field(s): '' @
          join_comma (set_order 1
            (filter (\<lambda>f. f \<notin> set (map fst sugar)) [''name'', ''color'', ''parts'']))),
        empty_table)"
    by blast
  then have s1: "respond (create_drink 1 JNull
                   (JObj [(''title'', JStr ''Tea''), (''recipe'', JObj sugar)]) empty_table)
     = (envelope 400 ''Missing required recipe field(s): parts, color'', empty_table)"
    unfolding sugar_missing by simp
  have range: "sqlite_integer 1"
    by (simp add: sqlite_integer_def)
  have single: "filter (\<lambda>x. id_col x = 1) (rows latte_table) = [?latte]"
    by (simp add: latte_table_def)
  have free: "''Mocha'' \<notin> set (map title (rows latte_table))"
    by (simp add: latte_table_def)
  have r1: "latte_table\<lparr>rows := map (\<lambda>x. if id_col x = 1
                                           then ?latte\<lparr>recipe := json_dumps (JObj milk)\<rparr> else x)
                                    (rows latte_table)\<rparr>
            = \<lparr>rows = [\<lparr>id_col = 1, title = ''Latte'', recipe = Dumps (JObj milk)\<rparr>],
               next_id = 2\<rparr>"
    by (simp add: latte_table_def json_dumps_def)
  have r2: "latte_table\<lparr>rows := map (\<lambda>x. if id_col x = 1 then ?latte\<lparr>title := ''Mocha''\<rparr> else x)
                                    (rows latte_table)\<rparr>
            = \<lparr>rows = [\<lparr>id_col = 1, title = ''Mocha'', recipe = Dumps (JArr [JObj milk])\<rparr>],
               next_id = 2\<rparr>"
    by (simp add: latte_table_def)
  from falsy_values_rejected
         [where kvs = "[]" and seed = 0 and payload = JNull and i = 1 and d = latte_table
            and row = ?latte]
       single range
  have o1: "respond (update_drink 0 JNull 1 (JObj []) latte_table)
     = (\<lparr>status = 200, content = Json (success_drinks [long ?latte])\<rparr>, latte_table)"
    by simp
  from falsy_values_rejected
         [where kvs = "[(''recipe'', JObj milk)]" and seed = 0 and payload = JNull and i = 1
            and d = latte_table and row = ?latte and ing = milk]
       single range valid_milk
  have o2: "respond (update_drink 0 JNull 1 (JObj [(''recipe'', JObj milk)]) latte_table) =
       (\<lparr>status = 200,
         content = Json (success_drinks [long (?latte\<lparr>recipe := json_dumps (JObj milk)\<rparr>)])\<rparr>,
        latte_table\<lparr>rows := map (\<lambda>x. if id_col x = 1
                                       then ?latte\<lparr>recipe := json_dumps (JObj milk)\<rparr> else x)
                                (rows latte_table)\<rparr>)"
    by simp
  from falsy_values_rejected
         [where kvs = "[(''title'', JStr ''Mocha'')]" and seed = 0 and payload = JNull and i = 1
            and d = latte_table and row = ?latte and t = "''Mocha''"]
       single range free
  have o3: "respond (update_drink 0 JNull 1 (JObj [(''title'', JStr ''Mocha'')]) latte_table) =
        (\<lparr>status = 200, content = Json (success_drinks [long (?latte\<lparr>title := ''Mocha''\<rparr>)])\<rparr>,
         latte_table\<lparr>rows := map (\<lambda>x. if id_col x = 1 then ?latte\<lparr>title := ''Mocha''\<rparr> else x)
                                 (rows latte_table)\<rparr>)"
    by simp
  from o2 have o2': "respond (update_drink 0 JNull 1 (JObj [(''recipe'', JObj milk)]) latte_table)
     = (\<lparr>status = 200,
         content = Json (success_drinks
           [long \<lparr>id_col = 1, title = ''Latte'', recipe = Dumps (JObj milk)\<rparr>])\<rparr>,
        \<lparr>rows = [\<lparr>id_col = 1, title = ''Latte'', recipe = Dumps (JObj milk)\<rparr>], next_id = 2\<rparr>)"
    unfolding r1 by (simp add: json_dumps_def)
  from o3 have o3': "respond (update_drink 0 JNull 1 (JObj [(''title'', JStr ''Mocha'')]) latte_table)
     = (\<lparr>status = 200,
         content = Json (success_drinks
           [long \<lparr>id_col = 1, title = ''Mocha'', recipe = Dumps (JArr [JObj milk])\<rparr>])\<rparr>,
        \<lparr>rows = [\<lparr>id_col = 1, title = ''Mocha'', recipe = Dumps (JArr [JObj milk])\<rparr>],
          next_id = 2\<rparr>)"
    unfolding r2 by simp
  from a b c d e f g j s0 s1 o1 o2' o3' water_fields water_first_falsy syrup_fields sugar_fields
       range single valid_milk free
  show ?thesis by blast
qed

end
